theory Spec2Isabelle
  imports Main "HOL-Library.Sublist"
begin

section \<open>Python strings\<close>

text \<open>
  A Python \<^verbatim>\<open>str\<close> is modelled as a \<^typ>\<open>string\<close>; a character stands for the code
  point of the same number (below 256). The functions of this section are the
  \<^verbatim>\<open>str\<close> methods that \<^verbatim>\<open>scripts/batch_convert.py\<close> and \<^verbatim>\<open>pathlib\<close> call.
\<close>

abbreviation backslash :: char where
  "backslash \<equiv> CHR 0x5C"

abbreviation slash :: char where
  "slash \<equiv> CHR ''/''"

definition is_upper :: "char \<Rightarrow> bool" where
  "is_upper c = (let n = (of_char c :: nat) in
     (65 \<le> n \<and> n \<le> 90) \<or> (192 \<le> n \<and> n \<le> 222 \<and> n \<noteq> 215))"

definition is_letter :: "char \<Rightarrow> bool" where
  "is_letter c = (let n = (of_char c :: nat) in
     (65 \<le> n \<and> n \<le> 90) \<or> (97 \<le> n \<and> n \<le> 122))"

text \<open>\<^verbatim>\<open>str.lower\<close> on one character: an upper-case letter has bit 5 clear, and the
  lower-case letter is the same character with bit 5 set.\<close>

definition lower_char :: "char \<Rightarrow> char" where
  "lower_char c =
     (if is_upper c
      then Char (digit0 c) (digit1 c) (digit2 c) (digit3 c) (digit4 c) True (digit6 c) (digit7 c)
      else c)"

definition lower :: "string \<Rightarrow> string" where
  "lower s = map lower_char s"

text \<open>\<^verbatim>\<open>str.replace(a, b)\<close> for one-character \<^verbatim>\<open>a\<close> and \<^verbatim>\<open>b\<close>.\<close>

definition replace :: "char \<Rightarrow> char \<Rightarrow> string \<Rightarrow> string" where
  "replace a b s = map (\<lambda>c. if c = a then b else c) s"

text \<open>\<^verbatim>\<open>str.split(c)\<close> for a one-character separator: one more piece than there are
  separators, empty pieces kept.\<close>

fun split_on :: "char \<Rightarrow> string \<Rightarrow> string list" where
  "split_on c [] = [[]]"
| "split_on c (x # xs) =
     (if x = c then [] # split_on c xs
      else (case split_on c xs of [] \<Rightarrow> [[x]] | w # ws \<Rightarrow> (x # w) # ws))"

text \<open>\<^verbatim>\<open>s.join(xs)\<close>.\<close>

fun join :: "string \<Rightarrow> string list \<Rightarrow> string" where
  "join s [] = []"
| "join s [x] = x"
| "join s (x # y # ys) = x @ s @ join s (y # ys)"

text \<open>\<^verbatim>\<open>str.rfind(c)\<close>: the index of the last occurrence, or -1.\<close>

fun find_last :: "char \<Rightarrow> string \<Rightarrow> nat option" where
  "find_last c [] = None"
| "find_last c (x # xs) =
     (case find_last c xs of
        Some i \<Rightarrow> Some (Suc i)
      | None \<Rightarrow> if x = c then Some 0 else None)"

definition rfind :: "char \<Rightarrow> string \<Rightarrow> int" where
  "rfind c s = (case find_last c s of None \<Rightarrow> - 1 | Some i \<Rightarrow> int i)"

text \<open>\<^verbatim>\<open>str.find(c, start)\<close>: the index of the first occurrence at or after
  \<^verbatim>\<open>start\<close>, or \<^verbatim>\<open>None\<close> where Python returns -1.\<close>

fun find_first :: "char \<Rightarrow> string \<Rightarrow> nat option" where
  "find_first c [] = None"
| "find_first c (x # xs) =
     (if x = c then Some 0 else map_option Suc (find_first c xs))"

definition find_from :: "char \<Rightarrow> nat \<Rightarrow> string \<Rightarrow> nat option" where
  "find_from c start s = map_option (\<lambda>i. i + start) (find_first c (drop start s))"

text \<open>\<^verbatim>\<open>a in s\<close> for strings: \<^verbatim>\<open>a\<close> occurs in \<^verbatim>\<open>s\<close> as a contiguous piece.\<close>

fun starts_with :: "string \<Rightarrow> string \<Rightarrow> bool" where
  "starts_with [] s = True"
| "starts_with (a # as) [] = False"
| "starts_with (a # as) (x # xs) = (a = x \<and> starts_with as xs)"

fun contains :: "string \<Rightarrow> string \<Rightarrow> bool" where
  "contains a [] = (a = [])"
| "contains a (x # xs) = (starts_with a (x # xs) \<or> contains a xs)"

text \<open>\<^verbatim>\<open>str.strip()\<close>: the white space of \<^verbatim>\<open>str.isspace\<close> below code point 256.\<close>

definition is_space :: "char \<Rightarrow> bool" where
  "is_space c = (let n = (of_char c :: nat) in
     (9 \<le> n \<and> n \<le> 13) \<or> (28 \<le> n \<and> n \<le> 32) \<or> n = 133 \<or> n = 160)"

definition strip :: "string \<Rightarrow> string" where
  "strip s = rev (dropWhile is_space (rev (dropWhile is_space s)))"

text \<open>\<^verbatim>\<open>str(n)\<close> for an integer, in decimal.\<close>

definition digit_char :: "nat \<Rightarrow> char" where
  "digit_char d = ''0123456789'' ! d"

fun str_nat :: "nat \<Rightarrow> string" where
  "str_nat n =
     (if n < 10 then [digit_char n]
      else str_nat (n div 10) @ [digit_char (n mod 10)])"

declare str_nat.simps [simp del]

definition str_int :: "int \<Rightarrow> string" where
  "str_int i = (if i < 0 then CHR ''-'' # str_nat (nat (- i)) else str_nat (nat i))"

section \<open>Paths (\<^verbatim>\<open>pathlib\<close>)\<close>

text \<open>
  \<^verbatim>\<open>Path\<close> is \<^verbatim>\<open>WindowsPath\<close> where \<^verbatim>\<open>sys.platform == "win32"\<close> and
  \<^verbatim>\<open>PosixPath\<close> elsewhere. A path object is its parsed form, as \<^verbatim>\<open>pathlib\<close>
  keeps it: the drive, the root, and the components after them.
\<close>

datatype platform = Win32 | Posix

record pure_path =
  drv :: string
  root :: string
  tail :: "string list"

definition sep :: "platform \<Rightarrow> char" where
  "sep plat = (case plat of Win32 \<Rightarrow> backslash | Posix \<Rightarrow> slash)"

text \<open>\<^verbatim>\<open>posixpath.splitroot\<close>.\<close>

definition posix_splitroot :: "string \<Rightarrow> string \<times> string \<times> string" where
  "posix_splitroot p =
     (if take 1 p \<noteq> [slash] then ([], [], p)
      else if take 1 (drop 1 p) \<noteq> [slash] \<or> take 1 (drop 2 p) = [slash]
        then ([], [slash], drop 1 p)
      else ([], take 2 p, drop 2 p))"

text \<open>\<^verbatim>\<open>ntpath.splitroot\<close>, on a string whose forward slashes have been replaced
  by backslashes already (\<^verbatim>\<open>pathlib\<close> does so before it calls the function). The
  extended \<^verbatim>\<open>\\?\UNC\\<close> prefix is not modelled: a path that starts with two
  backslashes is a UNC or device path whose drive ends before the fourth backslash.\<close>

definition nt_splitroot :: "string \<Rightarrow> string \<times> string \<times> string" where
  "nt_splitroot p =
     (if take 1 p = [backslash] then
        (if take 1 (drop 1 p) = [backslash] then
           (case find_from backslash 2 p of
              None \<Rightarrow> (p, [], [])
            | Some index \<Rightarrow>
                (case find_from backslash (index + 1) p of
                   None \<Rightarrow> (p, [], [])
                 | Some index2 \<Rightarrow> (take index2 p, take 1 (drop index2 p), drop (index2 + 1) p)))
         else ([], take 1 p, drop 1 p))
      else if take 1 (drop 1 p) = '':'' then
        (if take 1 (drop 2 p) = [backslash] then (take 2 p, take 1 (drop 2 p), drop 3 p)
         else (take 2 p, [], drop 2 p))
      else ([], [], p))"

text \<open>\<^verbatim>\<open>PurePath._parse_path\<close>: the constructor \<^verbatim>\<open>Path(s)\<close>.\<close>

definition Path :: "platform \<Rightarrow> string \<Rightarrow> pure_path" where
  "Path plat s =
     (if s = [] then \<lparr>drv = [], root = [], tail = []\<rparr>
      else
        let path = (case plat of Win32 \<Rightarrow> replace slash backslash s | Posix \<Rightarrow> s);
            (d, r, rel) = (case plat of Win32 \<Rightarrow> nt_splitroot path | Posix \<Rightarrow> posix_splitroot path);
            drv_parts = split_on (sep plat) d;
            r' = (if r = [] \<and> take 1 d = [sep plat] \<and> \<not> (d \<noteq> [] \<and> last d = sep plat)
                  then (if length drv_parts = 4 \<and> drv_parts ! 2 \<notin> {[], ''?'', ''.'', ''?.''} then [sep plat]
                        else if length drv_parts = 6 then [sep plat]
                        else r)
                  else r)
        in \<lparr>drv = d, root = r',
            tail = filter (\<lambda>x. x \<noteq> [] \<and> x \<noteq> ''.'') (split_on (sep plat) rel)\<rparr>)"

text \<open>\<^verbatim>\<open>PurePath.parts\<close>: the anchor (drive and root) when there is one, then the
  components.\<close>

definition parts :: "pure_path \<Rightarrow> string list" where
  "parts p = (if drv p @ root p \<noteq> [] then (drv p @ root p) # tail p else tail p)"

text \<open>\<^verbatim>\<open>str(path)\<close>.\<close>

definition str :: "platform \<Rightarrow> pure_path \<Rightarrow> string" where
  "str plat p =
     (let s = drv p @ root p @ join [sep plat] (tail p)
      in if s = [] then ''.'' else s)"

text \<open>\<^verbatim>\<open>path / key\<close> for a string \<^verbatim>\<open>key\<close>: the key is parsed and joined to the path
  (\<^verbatim>\<open>join_parsed_parts\<close>). Drives compare without case on Windows.\<close>

definition casefold :: "platform \<Rightarrow> string \<Rightarrow> string" where
  "casefold plat s = (case plat of Win32 \<Rightarrow> lower s | Posix \<Rightarrow> s)"

definition join_parsed_parts :: "platform \<Rightarrow> pure_path \<Rightarrow> pure_path \<Rightarrow> pure_path" where
  "join_parsed_parts plat p q =
     (if root q \<noteq> [] then
        (if drv q = [] \<and> drv p \<noteq> [] then \<lparr>drv = drv p, root = root q, tail = tail q\<rparr> else q)
      else if drv q \<noteq> [] then
        (if drv q = drv p \<or> casefold plat (drv q) = casefold plat (drv p)
         then \<lparr>drv = drv p, root = root p, tail = tail p @ tail q\<rparr>
         else q)
      else \<lparr>drv = drv p, root = root p, tail = tail p @ tail q\<rparr>)"

definition joinpath :: "platform \<Rightarrow> pure_path \<Rightarrow> string \<Rightarrow> pure_path" where
  "joinpath plat p key = join_parsed_parts plat p (Path plat key)"

text \<open>\<^verbatim>\<open>PurePath.name\<close>, \<^verbatim>\<open>suffix\<close> and \<^verbatim>\<open>stem\<close>.\<close>

definition name :: "pure_path \<Rightarrow> string" where
  "name p = (if tail p = [] then [] else last (tail p))"

definition suffix_of :: "pure_path \<Rightarrow> string" where
  "suffix_of p =
     (let n = name p; i = rfind CHR ''.'' n
      in if 0 < i \<and> i < int (length n) - 1 then drop (nat i) n else [])"

definition stem :: "pure_path \<Rightarrow> string" where
  "stem p =
     (let n = name p; i = rfind CHR ''.'' n
      in if 0 < i \<and> i < int (length n) - 1 then take (nat i) n else n)"

section \<open>Exceptions, the file system and external processes\<close>

text \<open>
  The exceptions the script raises or can receive. \<^verbatim>\<open>CalledProcessError\<close> carries
  the return code, the command, and the captured standard output and error.
\<close>

datatype exn =
    ValueError string
  | FileNotFoundError string
  | OSError string
  | AttributeError string
  | CalledProcessError int "string list" string string

definition newline :: char where
  "newline = CHR 0x0A"

definition repr_list :: "string list \<Rightarrow> string" where
  "repr_list xs = ''['' @ join '', '' (map (\<lambda>x. [CHR 0x27] @ x @ [CHR 0x27]) xs) @ '']''"

text \<open>\<^verbatim>\<open>str(e)\<close>. The script formats only exceptions built from one message; the
  text of a \<^verbatim>\<open>CalledProcessError\<close> is given for a command that exited.\<close>

fun str_exn :: "exn \<Rightarrow> string" where
  "str_exn (ValueError m) = m"
| "str_exn (FileNotFoundError m) = m"
| "str_exn (OSError m) = m"
| "str_exn (AttributeError m) = m"
| "str_exn (CalledProcessError rc cmd so se) =
     ''Command '' @ [CHR 0x27] @ repr_list cmd @ [CHR 0x27]
       @ '' returned non-zero exit status '' @ str_int rc @ ''.''"

text \<open>
  The file system, as far as the script observes it: which path strings name regular
  files and which name directories, what a directory lists, and for how many further
  attempts the removal of a file fails (a sharing violation while another program still
  holds the file).
\<close>

record filesys =
  files :: "string set"
  dirs :: "string set"
  listdir :: "string \<Rightarrow> string list"
  locks :: "string \<Rightarrow> nat"

definition path_exists :: "filesys \<Rightarrow> string \<Rightarrow> bool" where
  "path_exists f p = (p \<in> files f \<or> p \<in> dirs f)"

definition is_dir :: "filesys \<Rightarrow> string \<Rightarrow> bool" where
  "is_dir f p = (p \<in> dirs f)"

definition is_file :: "filesys \<Rightarrow> string \<Rightarrow> bool" where
  "is_file f p = (p \<in> files f)"

text \<open>\<^verbatim>\<open>Path.iterdir\<close>: one child path per listed entry, the entry name appended as it
  is.\<close>

definition iterdir :: "platform \<Rightarrow> filesys \<Rightarrow> pure_path \<Rightarrow> pure_path list" where
  "iterdir plat f p = map (\<lambda>n. p\<lparr>tail := tail p @ [n]\<rparr>) (listdir f (str plat p))"

text \<open>What an external process did: it exited with a return code and its two captured
  streams, or it could not be started.\<close>

datatype proc_outcome =
    Exited int string string
  | Launch_failed exn

text \<open>The environment of a run: the environment variables, the behaviour of external
  programs (a function of the argument vector and the file system, returning the outcome
  and the file system they leave), and \<^verbatim>\<open>os.path.realpath\<close>.\<close>

record os_env =
  environ :: "string \<Rightarrow> string option"
  run_proc :: "string list \<Rightarrow> filesys \<Rightarrow> proc_outcome \<times> filesys"
  realpath :: "filesys \<Rightarrow> string \<Rightarrow> string"

datatype err_item = Line string | Traceback exn

text \<open>The state a run threads: the file system, what was printed to the two streams,
  and three logs of effects (the processes started, the paths handed to
  \<^verbatim>\<open>os.remove\<close>, the milliseconds slept).\<close>

record world =
  fs :: filesys
  out :: "string list"
  err :: "err_item list"
  proc_log :: "string list list"
  remove_log :: "string list"
  slept :: nat

definition print_out :: "string \<Rightarrow> world \<Rightarrow> world" where
  "print_out s w = w\<lparr>out := out w @ [s]\<rparr>"

definition print_err :: "string \<Rightarrow> world \<Rightarrow> world" where
  "print_err s w = w\<lparr>err := err w @ [Line s]\<rparr>"

definition print_exc :: "exn \<Rightarrow> world \<Rightarrow> world" where
  "print_exc e w = w\<lparr>err := err w @ [Traceback e]\<rparr>"

definition sleep_ms :: "nat \<Rightarrow> world \<Rightarrow> world" where
  "sleep_ms n w = w\<lparr>slept := slept w + n\<rparr>"

text \<open>\<^verbatim>\<open>subprocess.run(args, check=..., capture_output=True, text=True)\<close>.\<close>

definition subprocess_run ::
  "os_env \<Rightarrow> string list \<Rightarrow> bool \<Rightarrow> world \<Rightarrow> (exn + int \<times> string \<times> string) \<times> world" where
  "subprocess_run env args check w =
     (case run_proc env args (fs w) of (outcome, f) \<Rightarrow>
        let w1 = w\<lparr>fs := f, proc_log := proc_log w @ [args]\<rparr> in
        (case outcome of
           Launch_failed e \<Rightarrow> (Inl e, w1)
         | Exited rc so se \<Rightarrow>
             if check \<and> rc \<noteq> 0 then (Inl (CalledProcessError rc args so se), w1)
             else (Inr (rc, so, se), w1)))"

text \<open>\<^verbatim>\<open>os.remove\<close>.\<close>

definition os_remove :: "string \<Rightarrow> world \<Rightarrow> (exn + unit) \<times> world" where
  "os_remove p w =
     (let w1 = w\<lparr>remove_log := remove_log w @ [p]\<rparr>; f = fs w in
      if p \<in> dirs f then (Inl (OSError (''Is a directory: '' @ p)), w1)
      else if p \<notin> files f then (Inl (FileNotFoundError (''No such file or directory: '' @ p)), w1)
      else if 0 < locks f p
        then (Inl (OSError (''The process cannot access the file because it is being used by another process: '' @ p)),
              w1\<lparr>fs := f\<lparr>locks := (locks f)(p := locks f p - 1)\<rparr>\<rparr>)
      else (Inr (), w1\<lparr>fs := f\<lparr>files := files f - {p}\<rparr>\<rparr>))"

text \<open>\<^verbatim>\<open>os.makedirs(path, exist_ok=True)\<close>: the directory and its missing ancestors
  are created; an ancestor that is a regular file makes it fail.\<close>

definition ancestors :: "platform \<Rightarrow> pure_path \<Rightarrow> string list" where
  "ancestors plat p = map (\<lambda>k. str plat (p\<lparr>tail := take k (tail p)\<rparr>)) [1..<Suc (length (tail p))]"

definition os_makedirs :: "platform \<Rightarrow> pure_path \<Rightarrow> world \<Rightarrow> (exn + unit) \<times> world" where
  "os_makedirs plat p w =
     (let f = fs w in
      if set (ancestors plat p) \<inter> files f \<noteq> {}
      then (Inl (OSError (''Not a directory: '' @ str plat p)), w)
      else (Inr (), w\<lparr>fs := f\<lparr>dirs := dirs f \<union> set (ancestors plat p)\<rparr>\<rparr>))"

section \<open>The script: \<^verbatim>\<open>scripts/batch_convert.py\<close>\<close>

text \<open>The attributes of a \<^verbatim>\<open>BatchProcessor\<close>. \<^verbatim>\<open>cygwin_bash\<close> is set on
  \<^verbatim>\<open>win32\<close> only.\<close>

record batch_processor =
  infiles :: "pure_path list"
  outpath :: pure_path
  rate :: int
  brrtools_bin :: pure_path
  cygwin_bash :: "string option"

subsection \<open>\<^verbatim>\<open>_windows_to_cygwin_path\<close>\<close>

text \<open>\<^verbatim>\<open>Path.resolve\<close>: \<^verbatim>\<open>os.path.realpath\<close> of the path's string, parsed again.\<close>

definition resolve :: "os_env \<Rightarrow> filesys \<Rightarrow> pure_path \<Rightarrow> pure_path" where
  "resolve env f p = Path Win32 (realpath env f (str Win32 p))"

definition windows_to_cygwin_path :: "os_env \<Rightarrow> filesys \<Rightarrow> string \<Rightarrow> string" where
  "windows_to_cygwin_path env f win_path =
     (let path = resolve env f (Path Win32 win_path);
          ps = parts path
      in if length ps > 0 \<and> length (ps ! 0) = 3 \<and> ps ! 0 ! 1 = CHR '':'' then
           (let drive = lower [ps ! 0 ! 0];
                rest = join ''/'' (drop 1 ps)
            in ''/cygdrive/'' @ drive @ ''/'' @ rest)
         else replace backslash slash (str Win32 path))"

subsection \<open>\<^verbatim>\<open>process_file\<close>\<close>

text \<open>Lines 201 to 215: the temporary BRR file is deleted, with a retry loop. The loop
  counter \<^verbatim>\<open>retries\<close> is the second argument.\<close>

function remove_loop :: "string \<Rightarrow> nat \<Rightarrow> world \<Rightarrow> world" where
  "remove_loop p retries w =
     (if retries < 6 then
        (case os_remove p w of
           (Inr u, w1) \<Rightarrow> w1
         | (Inl e_del, w1) \<Rightarrow>
             if Suc retries < 6 then remove_loop p (Suc retries) (sleep_ms 50 w1)
             else print_err (''Warning: Could not remove temporary BRR file: '' @ str_exn e_del) w1)
      else w)"
  by pat_completeness auto
termination
  by (relation "measure (\<lambda>(p, retries, w). 6 - retries)") auto

declare remove_loop.simps [simp del]

definition remove_tmp_brr :: "platform \<Rightarrow> pure_path \<Rightarrow> world \<Rightarrow> world" where
  "remove_tmp_brr plat tmp_brr w =
     (if path_exists (fs w) (str plat tmp_brr) then remove_loop (str plat tmp_brr) 0 w else w)"

text \<open>The two stages, each \<^verbatim>\<open>subprocess.run(..., check=True)\<close>: the second runs only
  when the first has returned.\<close>

definition run_stages ::
  "os_env \<Rightarrow> string list \<Rightarrow> string list \<Rightarrow> world \<Rightarrow> (exn + unit) \<times> world" where
  "run_stages env encode decode w =
     (case subprocess_run env encode True w of
        (Inl e, w1) \<Rightarrow> (Inl e, w1)
      | (Inr r, w1) \<Rightarrow>
          (case subprocess_run env decode True w1 of
             (Inl e, w2) \<Rightarrow> (Inl e, w2)
           | (Inr r', w2) \<Rightarrow> (Inr (), w2)))"

definition quoted :: "string \<Rightarrow> string" where
  "quoted s = [CHR 0x22] @ s @ [CHR 0x22]"

definition tmp_brr_of :: "platform \<Rightarrow> batch_processor \<Rightarrow> pure_path \<Rightarrow> pure_path" where
  "tmp_brr_of plat self infile = joinpath plat (outpath self) (stem infile @ ''.brr'')"

definition out_wav_of :: "platform \<Rightarrow> batch_processor \<Rightarrow> pure_path \<Rightarrow> pure_path" where
  "out_wav_of plat self infile = joinpath plat (outpath self) (name infile)"

text \<open>The argument vectors of the encode and decode stages, as lines 153 to 199 build
  them.\<close>

definition encode_args ::
  "os_env \<Rightarrow> platform \<Rightarrow> batch_processor \<Rightarrow> pure_path \<Rightarrow> filesys \<Rightarrow> string \<Rightarrow> string list" where
  "encode_args env plat self infile f bash =
     (let in_wav = str plat infile;
          tmp_brr = tmp_brr_of plat self infile
      in case plat of
           Win32 \<Rightarrow>
             (let in_wav_path = windows_to_cygwin_path env f in_wav;
                  tmp_brr_path = windows_to_cygwin_path env f (str plat tmp_brr);
                  brr_encoder = windows_to_cygwin_path env f
                     (str plat (joinpath plat (brrtools_bin self) ''brr_encoder''));
                  encode_cmd = quoted brr_encoder @ '' -sb'' @ str_int (rate self) @ '' ''
                     @ quoted in_wav_path @ '' '' @ quoted tmp_brr_path
              in [bash, ''-c'', encode_cmd])
         | Posix \<Rightarrow>
             (let brr_encoder = str plat (joinpath plat (brrtools_bin self) ''brr_encoder'')
              in [brr_encoder, ''-sb'' @ str_int (rate self), in_wav, str plat tmp_brr]))"

definition decode_args ::
  "os_env \<Rightarrow> platform \<Rightarrow> batch_processor \<Rightarrow> pure_path \<Rightarrow> filesys \<Rightarrow> string \<Rightarrow> string list" where
  "decode_args env plat self infile f bash =
     (let tmp_brr = tmp_brr_of plat self infile;
          out_wav = out_wav_of plat self infile
      in case plat of
           Win32 \<Rightarrow>
             (let tmp_brr_path = windows_to_cygwin_path env f (str plat tmp_brr);
                  out_wav_path = windows_to_cygwin_path env f (str plat out_wav);
                  brr_decoder = windows_to_cygwin_path env f
                     (str plat (joinpath plat (brrtools_bin self) ''brr_decoder''));
                  decode_cmd = quoted brr_decoder @ '' -s'' @ str_int (rate self) @ '' -g ''
                     @ quoted tmp_brr_path @ '' '' @ quoted out_wav_path
              in [bash, ''-c'', decode_cmd])
         | Posix \<Rightarrow>
             (let brr_decoder = str plat (joinpath plat (brrtools_bin self) ''brr_decoder'')
              in [brr_decoder, ''-s'' @ str_int (rate self), ''-g'', str plat tmp_brr, str plat out_wav]))"

text \<open>\<^verbatim>\<open>process_file\<close>. On \<^verbatim>\<open>win32\<close> the paths are translated in the file system
  the call starts in, before the first stage runs; reading \<^verbatim>\<open>self.cygwin_bash\<close>
  where it was never set raises \<^verbatim>\<open>AttributeError\<close>.\<close>

definition process_file ::
  "os_env \<Rightarrow> platform \<Rightarrow> batch_processor \<Rightarrow> pure_path \<Rightarrow> world \<Rightarrow> (exn + unit) \<times> world" where
  "process_file env plat self infile w =
     (let tmp_brr = tmp_brr_of plat self infile in
      case (case plat of Win32 \<Rightarrow> cygwin_bash self | Posix \<Rightarrow> Some []) of
        None \<Rightarrow> (Inl (AttributeError ''cygwin_bash''), w)
      | Some bash \<Rightarrow>
          (case run_stages env (encode_args env plat self infile (fs w) bash)
                               (decode_args env plat self infile (fs w) bash) w of
             (Inl e, w1) \<Rightarrow> (Inl e, w1)
           | (Inr u, w1) \<Rightarrow> (Inr (), remove_tmp_brr plat tmp_brr w1)))"

subsection \<open>\<^verbatim>\<open>process_batch\<close>\<close>

definition rule70 :: string where
  "rule70 = replicate 70 CHR ''=''"

text \<open>The diagnostic block of the \<^verbatim>\<open>CalledProcessError\<close> handler (lines 34 to 41)
  and the line of the \<^verbatim>\<open>Exception\<close> handler (lines 45 to 47).\<close>

definition report_failure :: "pure_path \<Rightarrow> exn \<Rightarrow> world \<Rightarrow> world" where
  "report_failure infile e w =
     (case e of
        CalledProcessError rc cmd so se \<Rightarrow>
          (let w1 = print_err ([newline] @ rule70) w;
               w2 = print_err (''ERROR processing '' @ name infile) w1;
               w3 = print_err (''Exit code: '' @ str_int rc) w2;
               w4 = (if so \<noteq> [] then print_err (''Stdout: '' @ so) w3 else w3);
               w5 = (if se \<noteq> [] then print_err (''Stderr: '' @ se) w4 else w4)
           in print_err rule70 w5)
      | _ \<Rightarrow>
          print_exc e
            (print_err ([newline] @ ''Unexpected error processing '' @ name infile @ '': '' @ str_exn e) w))"

text \<open>The loop of lines 28 to 48, over the files still to process, with the two
  counters and the state.\<close>

fun batch_loop ::
  "os_env \<Rightarrow> platform \<Rightarrow> batch_processor \<Rightarrow> pure_path list \<Rightarrow> nat \<Rightarrow> nat \<Rightarrow> world
     \<Rightarrow> nat \<times> nat \<times> world" where
  "batch_loop env plat self [] success_count error_count w = (success_count, error_count, w)"
| "batch_loop env plat self (infile # rest) success_count error_count w =
     (case process_file env plat self infile w of
        (Inr u, w1) \<Rightarrow> batch_loop env plat self rest (success_count + 1) error_count w1
      | (Inl e, w1) \<Rightarrow>
          batch_loop env plat self rest success_count (error_count + 1) (report_failure infile e w1))"

text \<open>\<^verbatim>\<open>process_batch\<close> returns nothing in the script; the model returns the two
  counters it prints, with the state.\<close>

definition process_batch ::
  "os_env \<Rightarrow> platform \<Rightarrow> batch_processor \<Rightarrow> world \<Rightarrow> nat \<times> nat \<times> world" where
  "process_batch env plat self w =
     (case batch_loop env plat self (infiles self) 0 0 w of
        (success_count, error_count, w1) \<Rightarrow>
          (let n = str_nat (length (infiles self));
               w2 = print_out ([newline] @ rule70) w1;
               w3 = print_out ''Batch processing complete!'' w2;
               w4 = print_out (''  Success: '' @ str_nat success_count @ ''/'' @ n) w3;
               w5 = print_out (''  Errors:  '' @ str_nat error_count @ ''/'' @ n) w4
           in (success_count, error_count, print_out rule70 w5)))"

subsection \<open>Set-up: \<^verbatim>\<open>get_infiles\<close>, \<^verbatim>\<open>get_outpath\<close>, \<^verbatim>\<open>get_brrtools_bin\<close>,
  \<^verbatim>\<open>_find_cygwin_bash\<close>\<close>

definition get_infiles :: "platform \<Rightarrow> string \<Rightarrow> world \<Rightarrow> (exn + pure_path list) \<times> world" where
  "get_infiles plat indir w =
     (let dirpath = Path plat indir in
      if \<not> is_dir (fs w) (str plat dirpath)
      then (Inl (ValueError (''Input directory does not exist: '' @ str plat dirpath)), w)
      else
        (let found = filter (\<lambda>item. is_file (fs w) (str plat item) \<and> lower (suffix_of item) = ''.wav'')
                         (iterdir plat (fs w) dirpath)
         in if found = []
            then (Inl (ValueError (''No .wav files found in '' @ str plat dirpath)), w)
            else (Inr found,
                  print_out (''Found '' @ str_nat (length found) @ '' WAV files to process'') w)))"

definition get_outpath :: "platform \<Rightarrow> string \<Rightarrow> world \<Rightarrow> (exn + pure_path) \<times> world" where
  "get_outpath plat outdir w =
     (let out_path = Path plat outdir in
      case (if \<not> path_exists (fs w) (str plat out_path)
            then (case os_makedirs plat out_path w of
                    (Inl e, w1) \<Rightarrow> (Inl e, w1)
                  | (Inr u, w1) \<Rightarrow>
                      (Inr (), print_out (''Created output directory: '' @ str plat out_path) w1))
            else (Inr (), w)) of
        (Inl e, w1) \<Rightarrow> (Inl e, w1)
      | (Inr u, w1) \<Rightarrow>
          if \<not> is_dir (fs w1) (str plat out_path)
          then (Inl (ValueError (''Output path exists but is not a directory: '' @ str plat out_path)), w1)
          else (Inr out_path, w1))"

definition get_brrtools_bin :: "platform \<Rightarrow> string \<Rightarrow> world \<Rightarrow> (exn + pure_path) \<times> world" where
  "get_brrtools_bin plat brrtools_dir w =
     (let brrtools_path = Path plat brrtools_dir in
      if \<not> is_dir (fs w) (str plat brrtools_path)
      then (Inl (ValueError (''BRRtools directory does not exist: '' @ str plat brrtools_path)), w)
      else
        (let bin = joinpath plat brrtools_path ''bin'' in
         if \<not> is_dir (fs w) (str plat bin)
         then (Inl (ValueError (''BRRtools bin directory does not exist: '' @ str plat bin)), w)
         else (Inr bin, w)))"

definition not_found_message :: string where
  "not_found_message =
     ''Could not find Cygwin bash.exe.'' @ [newline]
     @ ''Make sure Cygwin is installed.'' @ [newline]
     @ ''If Cygwin is installed in a non-standard location, set CYGWIN_ROOT environment variable.''
     @ [newline]
     @ ''Example: set CYGWIN_ROOT=C:'' @ [backslash] @ ''cygwin64''"

text \<open>Lines 99 to 107: the candidate paths, the configured root first when
  \<^verbatim>\<open>CYGWIN_ROOT\<close> is set and not empty.\<close>

definition possible_paths :: "os_env \<Rightarrow> pure_path list" where
  "possible_paths env =
     (let standard = [Path Win32 ''C:/cygwin64/bin/bash.exe'', Path Win32 ''C:/cygwin/bin/bash.exe'']
      in case environ env ''CYGWIN_ROOT'' of
           None \<Rightarrow> standard
         | Some cygwin_root \<Rightarrow>
             if cygwin_root \<noteq> []
             then joinpath Win32 (joinpath Win32 (Path Win32 cygwin_root) ''bin'') ''bash.exe'' # standard
             else standard)"

text \<open>Lines 110 to 112: the first candidate that exists.\<close>

fun first_existing :: "filesys \<Rightarrow> pure_path list \<Rightarrow> string option" where
  "first_existing f [] = None"
| "first_existing f (bash_path # rest) =
     (if path_exists f (str Win32 bash_path) then Some (str Win32 bash_path)
      else first_existing f rest)"

text \<open>Lines 124 to 131: the first line of the output of \<^verbatim>\<open>where bash.exe\<close> that is
  not under \<^verbatim>\<open>system32\<close>, mentions \<^verbatim>\<open>cygwin\<close> and exists.\<close>

fun search_locations :: "filesys \<Rightarrow> string list \<Rightarrow> string option" where
  "search_locations f [] = None"
| "search_locations f (line # rest) =
     (let location = strip line in
      if contains ''system32'' (lower location) then search_locations f rest
      else if contains ''cygwin'' (lower location) \<and> path_exists f (str Win32 (Path Win32 location))
        then Some location
      else search_locations f rest)"

text \<open>Lines 114 to 140: the search through \<^verbatim>\<open>where bash.exe\<close>, whose exceptions are
  swallowed, and the final \<^verbatim>\<open>raise\<close>.\<close>

definition where_bash :: "os_env \<Rightarrow> world \<Rightarrow> (exn + string) \<times> world" where
  "where_bash env w =
     (case subprocess_run env [''where'', ''bash.exe''] False w of
        (Inl e, w1) \<Rightarrow> (Inl (FileNotFoundError not_found_message), w1)
      | (Inr (returncode, so, se), w1) \<Rightarrow>
          if returncode = 0 then
            (case search_locations (fs w1) (split_on newline (strip so)) of
               Some location \<Rightarrow> (Inr location, w1)
             | None \<Rightarrow> (Inl (FileNotFoundError not_found_message), w1))
          else (Inl (FileNotFoundError not_found_message), w1))"

definition find_cygwin_bash :: "os_env \<Rightarrow> world \<Rightarrow> (exn + string) \<times> world" where
  "find_cygwin_bash env w =
     (case first_existing (fs w) (possible_paths env) of
        Some bash \<Rightarrow> (Inr bash, w)
      | None \<Rightarrow> where_bash env w)"

subsection \<open>\<^verbatim>\<open>__init__\<close> and the main program\<close>

definition init ::
  "os_env \<Rightarrow> platform \<Rightarrow> string \<Rightarrow> string \<Rightarrow> string \<Rightarrow> int \<Rightarrow> world
     \<Rightarrow> (exn + batch_processor) \<times> world" where
  "init env plat brrtools_dir in_dir out_dir sample_rate w =
     (case get_infiles plat in_dir w of
        (Inl e, w1) \<Rightarrow> (Inl e, w1)
      | (Inr found, w1) \<Rightarrow>
     (case get_outpath plat out_dir w1 of
        (Inl e, w2) \<Rightarrow> (Inl e, w2)
      | (Inr out_path, w2) \<Rightarrow>
     (case get_brrtools_bin plat brrtools_dir w2 of
        (Inl e, w3) \<Rightarrow> (Inl e, w3)
      | (Inr bin, w3) \<Rightarrow>
          (let self = \<lparr>infiles = found, outpath = out_path, rate = sample_rate,
                       brrtools_bin = bin, cygwin_bash = None\<rparr>
           in case plat of
                Posix \<Rightarrow> (Inr self, w3)
              | Win32 \<Rightarrow>
                  (case find_cygwin_bash env w3 of
                     (Inl e, w4) \<Rightarrow> (Inl e, w4)
                   | (Inr bash, w4) \<Rightarrow>
                       (Inr (self\<lparr>cygwin_bash := Some bash\<rparr>),
                        print_out (''Using Cygwin bash: '' @ bash) w4))))))"

text \<open>The parsed command line, and lines 253 to 261: the exit code of the process and
  the state it leaves.\<close>

record args =
  brrtools :: string
  indir :: string
  outdir :: string
  arg_rate :: int

definition main :: "os_env \<Rightarrow> platform \<Rightarrow> args \<Rightarrow> world \<Rightarrow> int \<times> world" where
  "main env plat a w =
     (case init env plat (brrtools a) (indir a) (outdir a) (arg_rate a) w of
        (Inl e, w1) \<Rightarrow>
          (1, print_exc e (print_err ([newline] @ ''FATAL ERROR: '' @ str_exn e) w1))
      | (Inr processor, w1) \<Rightarrow>
          (case process_batch env plat processor w1 of
             (success_count, error_count, w2) \<Rightarrow> (0, print_out ([newline] @ ''DONE'') w2)))"

section \<open>Constants of the statements\<close>

text \<open>The warning line of line 214 for a file that is still held by another program.\<close>

definition lock_warning :: "string \<Rightarrow> err_item" where
  "lock_warning p = Line (''Warning: Could not remove temporary BRR file: '' @
      ''The process cannot access the file because it is being used by another process: '' @ p)"

text \<open>The results of the calls of \<^verbatim>\<open>process_file\<close> that one run of the batch loop
  makes, in order: what each item did in the state the loop had reached.\<close>

fun item_results ::
  "os_env \<Rightarrow> platform \<Rightarrow> batch_processor \<Rightarrow> pure_path list \<Rightarrow> world \<Rightarrow> (exn + unit) list" where
  "item_results env plat self [] w = []"
| "item_results env plat self (infile # rest) w =
     (case process_file env plat self infile w of
        (Inr u, w1) \<Rightarrow> Inr () # item_results env plat self rest w1
      | (Inl e, w1) \<Rightarrow> Inl e # item_results env plat self rest (report_failure infile e w1))"

text \<open>A name as a directory listing returns it: not empty, not \<^verbatim>\<open>.\<close>, without a
  separator, and on Windows without a colon in second place (no drive).\<close>

definition valid_name :: "platform \<Rightarrow> string \<Rightarrow> bool" where
  "valid_name plat n =
     (n \<noteq> [] \<and> n \<noteq> ''.'' \<and> slash \<notin> set n
      \<and> (case plat of Posix \<Rightarrow> True
                     | Win32 \<Rightarrow> backslash \<notin> set n \<and> take 1 (drop 1 n) \<noteq> '':''))"

text \<open>What makes a line of the output of \<^verbatim>\<open>where bash.exe\<close> a Cygwin shell, in the words
  of lines 126 to 131: it is not under \<^verbatim>\<open>system32\<close>, it mentions \<^verbatim>\<open>cygwin\<close>, and the path
  exists.\<close>

definition cygwin_location :: "filesys \<Rightarrow> string \<Rightarrow> bool" where
  "cygwin_location f location =
     (\<not> contains ''system32'' (lower location) \<and> contains ''cygwin'' (lower location)
      \<and> path_exists f (str Win32 (Path Win32 location)))"

text \<open>The locations that a run of \<^verbatim>\<open>where bash.exe\<close> lists: the stripped lines of its
  stripped output when it exited with status 0, and none when it exited with another
  status or could not be started.\<close>

definition listed_locations :: "proc_outcome \<Rightarrow> string list" where
  "listed_locations outcome =
     (case outcome of
        Exited returncode so se \<Rightarrow>
          if returncode = 0 then map strip (split_on newline (strip so)) else []
      | Launch_failed e \<Rightarrow> [])"

section \<open>Example runs\<close>

text \<open>A POSIX run: one input file \<^verbatim>\<open>in/a.wav\<close>, tools under \<^verbatim>\<open>tools/bin\<close>, output to
  \<^verbatim>\<open>out\<close>. Tools that always succeed; each leaves the temporary file \<^verbatim>\<open>out/a.brr\<close>
  behind.\<close>

definition ok_env :: os_env where
  "ok_env = \<lparr>environ = (\<lambda>v. None),
             run_proc = (\<lambda>argv f. (Exited 0 [] [], f\<lparr>files := insert ''out/a.brr'' (files f)\<rparr>)),
             realpath = (\<lambda>f s. s)\<rparr>"

definition a_wav :: pure_path where
  "a_wav = \<lparr>drv = [], root = [], tail = [''in'', ''a.wav'']\<rparr>"

definition posix_self :: batch_processor where
  "posix_self = \<lparr>infiles = [a_wav],
                 outpath = \<lparr>drv = [], root = [], tail = [''out'']\<rparr>,
                 rate = 16000,
                 brrtools_bin = \<lparr>drv = [], root = [], tail = [''tools'', ''bin'']\<rparr>,
                 cygwin_bash = None\<rparr>"

text \<open>The file system of the example, with the temporary file locked for the next
  \<open>k\<close> removals.\<close>

definition locked_world :: "nat \<Rightarrow> world" where
  "locked_world k =
     \<lparr>fs = \<lparr>files = {''in/a.wav''},
             dirs = {''in'', ''out'', ''tools'', ''tools/bin''},
             listdir = (\<lambda>d. if d = ''in'' then [''a.wav''] else []),
             locks = (\<lambda>p. if p = ''out/a.brr'' then k else 0)\<rparr>,
      out = [], err = [], proc_log = [], remove_log = [], slept = 0\<rparr>"

text \<open>Tools that always exit with status 2, and tools of which only the decoder fails,
  with status 3.\<close>

definition failing_env :: os_env where
  "failing_env = \<lparr>environ = (\<lambda>v. None),
                  run_proc = (\<lambda>argv f. (Exited 2 [] ''bad input'', f)),
                  realpath = (\<lambda>f s. s)\<rparr>"

definition decoder_failing_env :: os_env where
  "decoder_failing_env =
     \<lparr>environ = (\<lambda>v. None),
      run_proc = (\<lambda>argv f. if take 1 argv = [''tools/bin/brr_decoder'']
                             then (Exited 3 [] ''bad block'', f)
                             else (Exited 0 [] [], f\<lparr>files := insert ''out/a.brr'' (files f)\<rparr>)),
      realpath = (\<lambda>f s. s)\<rparr>"

text \<open>A batch of two files, \<^verbatim>\<open>in/a.wav\<close> and \<^verbatim>\<open>in/b.wav\<close>, and tools that fail with
  status 2 on every command that names \<^verbatim>\<open>in/b.wav\<close>.\<close>

definition b_wav :: pure_path where
  "b_wav = \<lparr>drv = [], root = [], tail = [''in'', ''b.wav'']\<rparr>"

definition two_self :: batch_processor where
  "two_self = posix_self\<lparr>infiles := [b_wav, a_wav]\<rparr>"

definition b_failing_env :: os_env where
  "b_failing_env =
     \<lparr>environ = (\<lambda>v. None),
      run_proc = (\<lambda>argv f. if ''in/b.wav'' \<in> set argv then (Exited 2 [] ''bad input'', f)
                             else (Exited 0 [] [], f)),
      realpath = (\<lambda>f s. s)\<rparr>"

text \<open>Command lines: the example directories, and one whose input directory does not
  exist.\<close>

definition good_args :: args where
  "good_args = \<lparr>brrtools = ''tools'', indir = ''in'', outdir = ''out'', arg_rate = 16000\<rparr>"

definition bad_args :: args where
  "bad_args = \<lparr>brrtools = ''tools'', indir = ''nowhere'', outdir = ''out'', arg_rate = 16000\<rparr>"

text \<open>A Windows machine with Cygwin under \<^verbatim>\<open>C:\cygwin\<close>, and \<^verbatim>\<open>CYGWIN_ROOT\<close> set to a
  directory \<^verbatim>\<open>D:/tools/cygwin\<close> that holds no shell.\<close>

definition stale_root_env :: os_env where
  "stale_root_env =
     \<lparr>environ = (\<lambda>v. if v = ''CYGWIN_ROOT'' then Some ''D:/tools/cygwin'' else None),
      run_proc = (\<lambda>argv f. (Exited 1 [] [], f)),
      realpath = (\<lambda>f s. s)\<rparr>"

definition cygwin_world :: world where
  "cygwin_world =
     \<lparr>fs = \<lparr>files = {''C:'' @ [backslash] @ ''cygwin'' @ [backslash] @ ''bin'' @ [backslash] @ ''bash.exe''},
             dirs = {},
             listdir = (\<lambda>d. []),
             locks = (\<lambda>p. 0)\<rparr>,
      out = [], err = [], proc_log = [], remove_log = [], slept = 0\<rparr>"

definition no_wav_args :: args where
  "no_wav_args = \<lparr>brrtools = ''tools'', indir = ''out'', outdir = ''out'', arg_rate = 16000\<rparr>"

definition no_tools_args :: args where
  "no_tools_args = \<lparr>brrtools = ''missing'', indir = ''in'', outdir = ''out'', arg_rate = 16000\<rparr>"

text \<open>The example directories on a Windows machine without Cygwin.\<close>

definition windows_world :: world where
  "windows_world =
     \<lparr>fs = \<lparr>files = {''in'' @ [backslash] @ ''a.wav''},
             dirs = {''in'', ''out'', ''tools'', ''tools'' @ [backslash] @ ''bin''},
             listdir = (\<lambda>d. if d = ''in'' then [''a.wav''] else []),
             locks = (\<lambda>p. 0)\<rparr>,
      out = [], err = [], proc_log = [], remove_log = [], slept = 0\<rparr>"

text \<open>A command line whose output directory is the input directory.\<close>

definition in_place_args :: args where
  "in_place_args = \<lparr>brrtools = ''tools'', indir = ''in'', outdir = ''in'', arg_rate = 16000\<rparr>"

text \<open>An input directory that holds \<^verbatim>\<open>a.wav\<close> and \<^verbatim>\<open>a.WAV\<close>, two files on a file
  system that tells letter case apart.\<close>

definition a_WAV :: pure_path where
  "a_WAV = \<lparr>drv = [], root = [], tail = [''in'', ''a.WAV'']\<rparr>"

definition case_world :: world where
  "case_world =
     \<lparr>fs = \<lparr>files = {''in/a.wav'', ''in/a.WAV''},
             dirs = {''in'', ''out'', ''tools'', ''tools/bin''},
             listdir = (\<lambda>d. if d = ''in'' then [''a.wav'', ''a.WAV''] else []),
             locks = (\<lambda>p. 0)\<rparr>,
      out = [], err = [], proc_log = [], remove_log = [], slept = 0\<rparr>"

text \<open>A Windows machine without links whose current drive is \<^verbatim>\<open>C:\<close>:
  \<^verbatim>\<open>os.path.realpath\<close> puts a rooted path that names no drive on the current drive and
  leaves a path that names its drive or share as it is.\<close>

definition drive_c_env :: os_env where
  "drive_c_env =
     \<lparr>environ = (\<lambda>v. None),
      run_proc = (\<lambda>argv f. (Exited 0 [] [], f)),
      realpath = (\<lambda>f s. if take 1 s = [backslash] \<and> take 1 (drop 1 s) \<noteq> [backslash]
                          then ''C:'' @ s else s)\<rparr>"

text \<open>A Windows machine whose \<^verbatim>\<open>where bash.exe\<close> lists the shell of the Windows
  subsystem first and a Cygwin shell under \<^verbatim>\<open>D:\apps\cygwin\<close> second; both files exist, and
  \<^verbatim>\<open>CYGWIN_ROOT\<close> points to a directory that holds no shell.\<close>

definition wsl_bash :: string where
  "wsl_bash = ''C:'' @ [backslash] @ ''Windows'' @ [backslash] @ ''System32'' @ [backslash] @ ''bash.exe''"

definition apps_bash :: string where
  "apps_bash = ''D:'' @ [backslash] @ ''apps'' @ [backslash] @ ''cygwin'' @ [backslash] @ ''bin''
     @ [backslash] @ ''bash.exe''"

definition where_env :: os_env where
  "where_env =
     \<lparr>environ = (\<lambda>v. if v = ''CYGWIN_ROOT'' then Some ''D:/tools/cygwin'' else None),
      run_proc = (\<lambda>argv f. (Exited 0 (wsl_bash @ [newline] @ apps_bash @ [newline]) [], f)),
      realpath = (\<lambda>f s. s)\<rparr>"

definition where_world :: world where
  "where_world =
     \<lparr>fs = \<lparr>files = {wsl_bash, apps_bash}, dirs = {}, listdir = (\<lambda>d. []), locks = (\<lambda>p. 0)\<rparr>,
      out = [], err = [], proc_log = [], remove_log = [], slept = 0\<rparr>"

text \<open>A Windows machine on which drive \<^verbatim>\<open>Z:\<close> is mapped to the share
  \<^verbatim>\<open>\\server\share\<close>: \<^verbatim>\<open>os.path.realpath\<close> answers with the UNC path of a file on that
  drive.\<close>

definition mapped_drive_env :: os_env where
  "mapped_drive_env =
     \<lparr>environ = (\<lambda>v. None),
      run_proc = (\<lambda>argv f. (Exited 0 [] [], f)),
      realpath = (\<lambda>f s. if take 3 s = ''Z:'' @ [backslash]
                          then [backslash, backslash] @ ''server'' @ [backslash] @ ''share''
                               @ [backslash] @ drop 3 s
                          else s)\<rparr>"

definition song_on_z :: string where
  "song_on_z = ''Z:'' @ [backslash] @ ''Music'' @ [backslash] @ ''song.wav''"

section \<open>Evaluation\<close>

text \<open>The defining equations, grouped, for evaluating the model on concrete inputs.\<close>

lemmas string_defs = lower_def lower_char_def is_upper_def is_letter_def is_space_def strip_def
  replace_def rfind_def find_from_def str_int_def str_nat.simps digit_char_def newline_def
  repr_list_def

lemmas path_defs = Path_def parts_def str_def joinpath_def join_parsed_parts_def name_def
  suffix_of_def stem_def sep_def posix_splitroot_def nt_splitroot_def casefold_def

lemmas io_defs = subprocess_run_def os_remove_def os_makedirs_def ancestors_def print_out_def
  print_err_def print_exc_def sleep_ms_def path_exists_def is_dir_def is_file_def iterdir_def

lemmas script_defs = process_file_def run_stages_def encode_args_def decode_args_def
  tmp_brr_of_def out_wav_of_def remove_tmp_brr_def remove_loop.simps quoted_def
  windows_to_cygwin_path_def resolve_def report_failure_def process_batch_def rule70_def
  get_infiles_def get_outpath_def get_brrtools_bin_def possible_paths_def find_cygwin_bash_def where_bash_def
  not_found_message_def init_def main_def

lemmas example_defs = cygwin_location_def listed_locations_def wsl_bash_def apps_bash_def where_env_def
  where_world_def mapped_drive_env_def song_on_z_def drive_c_env_def a_WAV_def case_world_def in_place_args_def no_wav_args_def no_tools_args_def windows_world_def good_args_def bad_args_def stale_root_env_def cygwin_world_def b_wav_def two_self_def b_failing_env_def failing_env_def decoder_failing_env_def valid_name_def ok_env_def posix_self_def a_wav_def locked_world_def lock_warning_def

section \<open>The retry loop of the clean-up\<close>

lemma os_remove_locked:
  assumes "p \<in> files (fs w)" "p \<notin> dirs (fs w)" "0 < locks (fs w) p"
  shows "\<exists>e w1. os_remove p w = (Inl e, w1) \<and> remove_log w1 = remove_log w @ [p]
     \<and> slept w1 = slept w \<and> err w1 = err w \<and> out w1 = out w \<and> proc_log w1 = proc_log w
     \<and> files (fs w1) = files (fs w) \<and> dirs (fs w1) = dirs (fs w)
     \<and> locks (fs w1) p = locks (fs w) p - 1
     \<and> e = OSError (''The process cannot access the file because it is being used by another process: '' @ p)"
  using assms by (simp add: os_remove_def Let_def)

lemma os_remove_free:
  assumes "p \<in> files (fs w)" "p \<notin> dirs (fs w)" "locks (fs w) p = 0"
  shows "os_remove p w = (Inr (), w\<lparr>remove_log := remove_log w @ [p], fs := (fs w)\<lparr>files := files (fs w) - {p}\<rparr>\<rparr>)"
  using assms by (simp add: os_remove_def Let_def)

lemma remove_loop_effect:
  assumes "p \<in> files (fs w)" "p \<notin> dirs (fs w)" "r < 6"
  shows "remove_log (remove_loop p r w) = remove_log w @ replicate (min (Suc (locks (fs w) p)) (6 - r)) p
       \<and> slept (remove_loop p r w) = slept w + 50 * min (locks (fs w) p) (5 - r)
       \<and> err (remove_loop p r w) = (if locks (fs w) p < 6 - r then err w else err w @ [lock_warning p])
       \<and> files (fs (remove_loop p r w)) = (if locks (fs w) p < 6 - r then files (fs w) - {p} else files (fs w))
       \<and> dirs (fs (remove_loop p r w)) = dirs (fs w)
       \<and> out (remove_loop p r w) = out w
       \<and> proc_log (remove_loop p r w) = proc_log w"
  using assms
proof (induction "6 - r" arbitrary: r w)
  case 0
  then show ?case by simp
next
  case (Suc n)
  show ?case
  proof (cases "locks (fs w) p = 0")
    case True
    with Suc.prems have "remove_loop p r w =
        w\<lparr>remove_log := remove_log w @ [p], fs := (fs w)\<lparr>files := files (fs w) - {p}\<rparr>\<rparr>"
      by (subst remove_loop.simps) (simp add: os_remove_free)
    with True Suc.prems show ?thesis by simp
  next
    case False
    with Suc.prems obtain e w1 where
      w1: "os_remove p w = (Inl e, w1)" "remove_log w1 = remove_log w @ [p]"
        "slept w1 = slept w" "err w1 = err w" "out w1 = out w" "proc_log w1 = proc_log w"
        "files (fs w1) = files (fs w)" "dirs (fs w1) = dirs (fs w)"
        "locks (fs w1) p = locks (fs w) p - 1"
        "e = OSError (''The process cannot access the file because it is being used by another process: '' @ p)"
      using os_remove_locked[of p w] by auto
    show ?thesis
    proof (cases "Suc r < 6")
      case True
      let ?w2 = "sleep_ms 50 w1"
      have n: "n = 6 - Suc r" using Suc.hyps(2) by simp
      have pre: "p \<in> files (fs ?w2)" "p \<notin> dirs (fs ?w2)"
        using Suc.prems w1 by (simp_all add: sleep_ms_def)
      note IH = Suc.hyps(1)[OF n pre True]
      have step: "remove_loop p r w = remove_loop p (Suc r) ?w2"
        using Suc.prems True w1(1) by (subst remove_loop.simps) simp
      have l2: "locks (fs ?w2) p = locks (fs w) p - 1" using w1 by (simp add: sleep_ms_def)
      have f2: "remove_log ?w2 = remove_log w @ [p]" "slept ?w2 = slept w + 50" "err ?w2 = err w"
        "out ?w2 = out w" "proc_log ?w2 = proc_log w" "files (fs ?w2) = files (fs w)" "dirs (fs ?w2) = dirs (fs w)"
        using w1 by (simp_all add: sleep_ms_def)
      obtain k where k: "locks (fs w) p = Suc k" using False by (cases "locks (fs w) p") auto
      have "5 - r = Suc (4 - r)" "6 - r = Suc (Suc (4 - r))" using True by simp_all
      then show ?thesis
        unfolding step using IH True unfolding l2 f2 k
        by (auto simp: min_def)
    next
      case F2: False
      then have r5: "r = 5" using Suc.prems by simp
      have "remove_loop p r w = print_err (''Warning: Could not remove temporary BRR file: '' @ str_exn e) w1"
        using Suc.prems F2 w1(1) by (subst remove_loop.simps) simp
      then show ?thesis using w1 False r5
        by (simp add: print_err_def lock_warning_def)
    qed
  qed
qed

lemma process_file_ok:
  assumes "(case plat of Win32 \<Rightarrow> cygwin_bash self | Posix \<Rightarrow> Some []) = Some bash"
    and "run_stages env (encode_args env plat self infile (fs w) bash)
           (decode_args env plat self infile (fs w) bash) w = (Inr (), w1)"
  shows "process_file env plat self infile w
           = (Inr (), remove_tmp_brr plat (tmp_brr_of plat self infile) w1)"
  using assms by (simp add: process_file_def)

lemma process_file_fail:
  assumes "(case plat of Win32 \<Rightarrow> cygwin_bash self | Posix \<Rightarrow> Some []) = Some bash"
    and "run_stages env (encode_args env plat self infile (fs w) bash)
           (decode_args env plat self infile (fs w) bash) w = (Inl e, w1)"
  shows "process_file env plat self infile w = (Inl e, w1)"
  using assms by (simp add: process_file_def)


section \<open>Clean-up of the temporary file\<close>

text \<open>
  C8. When the temporary file does not exist, the clean-up of lines 202 to 215 does
  nothing: the state is returned as it was, so no removal was attempted, no time was
  slept, nothing was printed to the error stream, and nothing is raised (the clean-up
  has no error result at all).
\<close>

theorem cleanup_nonexistent_noop:
  assumes "\<not> path_exists (fs w) (str plat tmp_brr)"
  shows "remove_tmp_brr plat tmp_brr w = w"
  using assms by (simp add: remove_tmp_brr_def)

theorem cleanup_nonexistent_noop_witness:
  "\<not> path_exists (fs (locked_world 0)) (str Posix (tmp_brr_of Posix posix_self a_wav))
   \<and> remove_log (remove_tmp_brr Posix (tmp_brr_of Posix posix_self a_wav) (locked_world 0)) = []
   \<and> slept (remove_tmp_brr Posix (tmp_brr_of Posix posix_self a_wav) (locked_world 0)) = 0
   \<and> err (remove_tmp_brr Posix (tmp_brr_of Posix posix_self a_wav) (locked_world 0)) = []"
proof -
  have h: "\<not> path_exists (fs (locked_world 0)) (str Posix (tmp_brr_of Posix posix_self a_wav))"
    by (simp add: string_defs path_defs io_defs script_defs example_defs)
  have "remove_log (locked_world 0) = []" "slept (locked_world 0) = 0" "err (locked_world 0) = []"
    by (simp_all add: locked_world_def)
  with h cleanup_nonexistent_noop [OF h] show ?thesis by simp
qed


text \<open>
  C5. Let the two stages succeed and leave the temporary file \<open>p\<close> as a regular file
  that another program holds for the next \<open>k\<close> removals. Then \<^verbatim>\<open>process_file\<close>
  returns normally; \<^verbatim>\<open>os.remove\<close> is called \<open>min (k + 1) 6\<close> times, so at most 6
  times, with one sleep of 50 ms between two consecutive attempts. If all six attempts
  fail (\<open>6 \<le> k\<close>), one warning line is printed, the file stays, and the batch loop counts
  the item as a success. If fewer fail, the file is removed and no warning is printed; in
  particular with three failures the fourth attempt removes the file.
\<close>

theorem cleanup_retry_policy:
  assumes shell: "(case plat of Win32 \<Rightarrow> cygwin_bash self | Posix \<Rightarrow> Some []) = Some bash"
    and stages: "run_stages env (encode_args env plat self infile (fs w) bash)
           (decode_args env plat self infile (fs w) bash) w = (Inr (), w1)"
    and p: "p = str plat (tmp_brr_of plat self infile)"
    and tmp: "p \<in> files (fs w1)" "p \<notin> dirs (fs w1)"
    and w': "w' = snd (process_file env plat self infile w)"
    and k: "k = locks (fs w1) p"
  shows "fst (process_file env plat self infile w) = Inr ()
       \<and> remove_log w' = remove_log w1 @ replicate (min (Suc k) 6) p
       \<and> slept w' = slept w1 + 50 * (min (Suc k) 6 - 1)
       \<and> (6 \<le> k \<longrightarrow> err w' = err w1 @ [lock_warning p] \<and> p \<in> files (fs w')
             \<and> batch_loop env plat self [infile] s e w = (s + 1, e, w'))
       \<and> (k < 6 \<longrightarrow> err w' = err w1 \<and> p \<notin> files (fs w'))
       \<and> (k = 3 \<longrightarrow> remove_log w' = remove_log w1 @ [p, p, p, p] \<and> slept w' = slept w1 + 150)"
proof -
  have pf: "process_file env plat self infile w = (Inr (), remove_loop p 0 w1)"
    using process_file_ok [OF shell stages] tmp p by (simp add: remove_tmp_brr_def path_exists_def)
  then have w'': "remove_loop p 0 w1 = w'" using w' by simp
  have lt: "(0::nat) < 6" by simp
  note eff = remove_loop_effect [OF tmp lt]
  have e1: "remove_log w' = remove_log w1 @ replicate (min (Suc k) 6) p"
    using eff unfolding w'' k by simp
  have e2: "slept w' = slept w1 + 50 * min k 5"
    using eff unfolding w'' k by simp
  have e3: "err w' = (if k < 6 then err w1 else err w1 @ [lock_warning p])"
    using eff unfolding w'' k by simp
  have e4: "files (fs w') = (if k < 6 then files (fs w1) - {p} else files (fs w1))"
    using eff unfolding w'' k by simp
  have m: "min k 5 = min (Suc k) 6 - 1" by (auto simp: min_def)
  have bl: "batch_loop env plat self [infile] s e w = (s + 1, e, w')"
    using pf w'' by simp
  have c1: "fst (process_file env plat self infile w) = Inr ()" using pf by simp
  have c3: "slept w' = slept w1 + 50 * (min (Suc k) 6 - 1)" by (subst m [symmetric]) (rule e2)
  have c4: "6 \<le> k \<longrightarrow> err w' = err w1 @ [lock_warning p] \<and> p \<in> files (fs w')
             \<and> batch_loop env plat self [infile] s e w = (s + 1, e, w')"
    using e3 e4 bl tmp by simp
  have c5: "k < 6 \<longrightarrow> err w' = err w1 \<and> p \<notin> files (fs w')"
    using e3 e4 by simp
  have c6: "k = 3 \<longrightarrow> remove_log w' = remove_log w1 @ [p, p, p, p] \<and> slept w' = slept w1 + 150"
  proof
    assume k3: "k = 3"
    have "replicate (min (Suc 3) 6) p = [p, p, p, p]" by (simp add: eval_nat_numeral)
    moreover have "(50::nat) * min 3 5 = 150" by simp
    ultimately show "remove_log w' = remove_log w1 @ [p, p, p, p] \<and> slept w' = slept w1 + 150"
      unfolding e1 e2 k3 by (simp only:)
  qed
  show ?thesis using c1 e1 c3 c4 c5 c6 by blast
qed


theorem cleanup_retry_policy_witness:
  "fst (process_file ok_env Posix posix_self a_wav (locked_world 3)) = Inr ()
   \<and> remove_log (snd (process_file ok_env Posix posix_self a_wav (locked_world 3)))
        = [''out/a.brr'', ''out/a.brr'', ''out/a.brr'', ''out/a.brr'']
   \<and> slept (snd (process_file ok_env Posix posix_self a_wav (locked_world 3))) = 150
   \<and> err (snd (process_file ok_env Posix posix_self a_wav (locked_world 3))) = []
   \<and> ''out/a.brr'' \<notin> files (fs (snd (process_file ok_env Posix posix_self a_wav (locked_world 3))))
   \<and> err (snd (process_file ok_env Posix posix_self a_wav (locked_world 7))) = [lock_warning ''out/a.brr'']
   \<and> ''out/a.brr'' \<in> files (fs (snd (process_file ok_env Posix posix_self a_wav (locked_world 7))))
   \<and> fst (batch_loop ok_env Posix posix_self [a_wav] 0 0 (locked_world 7)) = 1"
proof -
  let ?st = "\<lambda>k. run_stages ok_env (encode_args ok_env Posix posix_self a_wav (fs (locked_world k)) [])
           (decode_args ok_env Posix posix_self a_wav (fs (locked_world k)) []) (locked_world k)"
  have shell: "(case Posix of Win32 \<Rightarrow> cygwin_bash posix_self | Posix \<Rightarrow> Some []) = Some []"
    by simp
  have "str Posix (tmp_brr_of Posix posix_self a_wav) = ''out/a.brr''" by (simp add: string_defs path_defs io_defs script_defs example_defs)
  then have p: "''out/a.brr'' = str Posix (tmp_brr_of Posix posix_self a_wav)" by (rule sym)
  have f3: "fst (?st 3) = Inr ()" by (simp add: string_defs path_defs io_defs script_defs example_defs)
  then have st3: "?st 3 = (Inr (), snd (?st 3))" by (metis prod.collapse)
  have in3: "''out/a.brr'' \<in> files (fs (snd (?st 3)))" by (simp add: string_defs path_defs io_defs script_defs example_defs)
  have nd3: "''out/a.brr'' \<notin> dirs (fs (snd (?st 3)))" by (simp add: string_defs path_defs io_defs script_defs example_defs)
  have "locks (fs (snd (?st 3))) ''out/a.brr'' = 3" by (simp add: string_defs path_defs io_defs script_defs example_defs)
  then have k3: "3 = locks (fs (snd (?st 3))) ''out/a.brr''" by (rule sym)
  have l3: "remove_log (snd (?st 3)) = []" "slept (snd (?st 3)) = 0" "err (snd (?st 3)) = []"
    by (simp_all add: string_defs path_defs io_defs script_defs example_defs)
  have f7: "fst (?st 7) = Inr ()" by (simp add: string_defs path_defs io_defs script_defs example_defs)
  then have st7: "?st 7 = (Inr (), snd (?st 7))" by (metis prod.collapse)
  have in7: "''out/a.brr'' \<in> files (fs (snd (?st 7)))" by (simp add: string_defs path_defs io_defs script_defs example_defs)
  have nd7: "''out/a.brr'' \<notin> dirs (fs (snd (?st 7)))" by (simp add: string_defs path_defs io_defs script_defs example_defs)
  have "locks (fs (snd (?st 7))) ''out/a.brr'' = 7" by (simp add: string_defs path_defs io_defs script_defs example_defs)
  then have k7: "7 = locks (fs (snd (?st 7))) ''out/a.brr''" by (rule sym)
  have l7: "err (snd (?st 7)) = []" by (simp add: string_defs path_defs io_defs script_defs example_defs)
  note a = cleanup_retry_policy [OF shell st3 p in3 nd3 refl k3, of 0 0]
  note b = cleanup_retry_policy [OF shell st7 p in7 nd7 refl k7, of 0 0]
  have r4: "\<And>x::string. replicate 4 x = [x, x, x, x]" by (simp add: eval_nat_numeral)
  show ?thesis using a b l3 l7 by (simp add: r4)
qed


section \<open>The two stages of one job\<close>

text \<open>
  C4. In \<^verbatim>\<open>process_file\<close>, when the encoder exits with a status other than 0, the call
  raises \<^verbatim>\<open>CalledProcessError\<close> with that status and the encoder's command, and the only
  process started is the encoder: the decoder is not run. When the encoder exits with 0
  and the decoder with another status, the call raises with the decoder's status and
  command. In both cases the state is the one the failing stage left: no clean-up and no
  further step follows.
\<close>

theorem nonzero_exit_raises:
  assumes shell: "(case plat of Win32 \<Rightarrow> cygwin_bash self | Posix \<Rightarrow> Some []) = Some bash"
    and enc: "enc = encode_args env plat self infile (fs w) bash"
    and dec: "dec = decode_args env plat self infile (fs w) bash"
  shows "(\<forall>rc so se f1.
            run_proc env enc (fs w) = (Exited rc so se, f1) \<and> rc \<noteq> 0 \<longrightarrow>
            process_file env plat self infile w
              = (Inl (CalledProcessError rc enc so se), w\<lparr>fs := f1, proc_log := proc_log w @ [enc]\<rparr>))
       \<and> (\<forall>so se f1 rc so' se' f2.
            run_proc env enc (fs w) = (Exited 0 so se, f1)
            \<and> run_proc env dec f1 = (Exited rc so' se', f2) \<and> rc \<noteq> 0 \<longrightarrow>
            process_file env plat self infile w
              = (Inl (CalledProcessError rc dec so' se'),
                 w\<lparr>fs := f2, proc_log := proc_log w @ [enc, dec]\<rparr>))"
proof (intro conjI allI impI)
  fix rc so se f1
  assume "run_proc env enc (fs w) = (Exited rc so se, f1) \<and> rc \<noteq> 0"
  then have "run_stages env enc dec w
      = (Inl (CalledProcessError rc enc so se), w\<lparr>fs := f1, proc_log := proc_log w @ [enc]\<rparr>)"
    by (simp add: run_stages_def subprocess_run_def)
  then show "process_file env plat self infile w
      = (Inl (CalledProcessError rc enc so se), w\<lparr>fs := f1, proc_log := proc_log w @ [enc]\<rparr>)"
    using process_file_fail [OF shell] enc dec by simp
next
  fix so se f1 rc so' se' f2
  assume "run_proc env enc (fs w) = (Exited 0 so se, f1)
            \<and> run_proc env dec f1 = (Exited rc so' se', f2) \<and> rc \<noteq> 0"
  then have "run_stages env enc dec w
      = (Inl (CalledProcessError rc dec so' se'), w\<lparr>fs := f2, proc_log := proc_log w @ [enc, dec]\<rparr>)"
    by (simp add: run_stages_def subprocess_run_def)
  then show "process_file env plat self infile w
      = (Inl (CalledProcessError rc dec so' se'), w\<lparr>fs := f2, proc_log := proc_log w @ [enc, dec]\<rparr>)"
    using process_file_fail [OF shell] enc dec by simp
qed


theorem nonzero_exit_raises_witness:
  "fst (process_file failing_env Posix posix_self a_wav (locked_world 0))
     = Inl (CalledProcessError 2 [''tools/bin/brr_encoder'', ''-sb16000'', ''in/a.wav'', ''out/a.brr'']
              [] ''bad input'')
   \<and> proc_log (snd (process_file failing_env Posix posix_self a_wav (locked_world 0)))
     = [[''tools/bin/brr_encoder'', ''-sb16000'', ''in/a.wav'', ''out/a.brr'']]
   \<and> fst (process_file decoder_failing_env Posix posix_self a_wav (locked_world 0))
     = Inl (CalledProcessError 3
              [''tools/bin/brr_decoder'', ''-s16000'', ''-g'', ''out/a.brr'', ''out/a.wav''] [] ''bad block'')
   \<and> proc_log (snd (process_file decoder_failing_env Posix posix_self a_wav (locked_world 0)))
     = [[''tools/bin/brr_encoder'', ''-sb16000'', ''in/a.wav'', ''out/a.brr''],
        [''tools/bin/brr_decoder'', ''-s16000'', ''-g'', ''out/a.brr'', ''out/a.wav'']]"
proof -
  let ?enc = "[''tools/bin/brr_encoder'', ''-sb16000'', ''in/a.wav'', ''out/a.brr'']"
  let ?dec = "[''tools/bin/brr_decoder'', ''-s16000'', ''-g'', ''out/a.brr'', ''out/a.wav'']"
  let ?w = "locked_world 0"
  have shell: "(case Posix of Win32 \<Rightarrow> cygwin_bash posix_self | Posix \<Rightarrow> Some []) = Some []"
    by simp
  have enc1: "?enc = encode_args failing_env Posix posix_self a_wav (fs ?w) []"
    by (simp add: string_defs path_defs script_defs example_defs)
  have dec1: "?dec = decode_args failing_env Posix posix_self a_wav (fs ?w) []"
    by (simp add: string_defs path_defs script_defs example_defs)
  have enc2: "?enc = encode_args decoder_failing_env Posix posix_self a_wav (fs ?w) []"
    by (simp add: string_defs path_defs script_defs example_defs)
  have dec2: "?dec = decode_args decoder_failing_env Posix posix_self a_wav (fs ?w) []"
    by (simp add: string_defs path_defs script_defs example_defs)
  have r1: "run_proc failing_env ?enc (fs ?w) = (Exited 2 [] ''bad input'', fs ?w) \<and> (2::int) \<noteq> 0"
    by (simp add: example_defs)
  have r2: "run_proc decoder_failing_env ?enc (fs ?w)
              = (Exited 0 [] [], (fs ?w)\<lparr>files := insert ''out/a.brr'' (files (fs ?w))\<rparr>)
          \<and> run_proc decoder_failing_env ?dec ((fs ?w)\<lparr>files := insert ''out/a.brr'' (files (fs ?w))\<rparr>)
              = (Exited 3 [] ''bad block'', (fs ?w)\<lparr>files := insert ''out/a.brr'' (files (fs ?w))\<rparr>)
          \<and> (3::int) \<noteq> 0"
    by (simp add: example_defs)
  note a = nonzero_exit_raises [OF shell enc1 dec1, THEN conjunct1, rule_format, OF r1]
  note b = nonzero_exit_raises [OF shell enc2 dec2, THEN conjunct2, rule_format, OF r2]
  have pl: "proc_log ?w = []" by (simp add: example_defs)
  show ?thesis using a b pl by simp
qed


section \<open>The batch loop\<close>

lemma batch_loop_counts:
  "batch_loop env plat self items s e w = (s', e', w') \<Longrightarrow>
     length (item_results env plat self items w) = length items
     \<and> e' = e + length (filter isl (item_results env plat self items w))
     \<and> s' + e' = s + e + length items"
proof (induction items arbitrary: s e w)
  case Nil
  then show ?case by simp
next
  case (Cons infile rest)
  obtain r w1 where pf: "process_file env plat self infile w = (r, w1)"
    by (cases "process_file env plat self infile w")
  show ?case
  proof (cases r)
    case (Inl ex)
    with pf Cons.prems have
      "batch_loop env plat self rest s (e + 1) (report_failure infile ex w1) = (s', e', w')"
      by simp
    from Cons.IH [OF this] pf Inl show ?thesis by simp
  next
    case (Inr u)
    with pf Cons.prems have "batch_loop env plat self rest (s + 1) e w1 = (s', e', w')"
      by simp
    from Cons.IH [OF this] pf Inr show ?thesis by simp
  qed
qed


text \<open>
  C1. A run of \<^verbatim>\<open>process_batch\<close> over \<open>N\<close> input files calls \<^verbatim>\<open>process_file\<close> once
  for each of them, whatever the earlier calls did. If \<open>K\<close> of these calls raise (a
  \<^verbatim>\<open>CalledProcessError\<close> of a failed tool, or any other exception), the run ends with
  the error counter at \<open>K\<close> and the success counter at \<open>N - K\<close>.
\<close>

theorem batch_isolates_failures:
  assumes run: "process_batch env plat self w = (succeeded, failed, w')"
    and K: "K = length (filter isl (item_results env plat self (infiles self) w))"
    and N: "N = length (infiles self)"
  shows "length (item_results env plat self (infiles self) w) = N
       \<and> failed = K \<and> succeeded = N - K \<and> succeeded + failed = N"
proof -
  obtain w1 where "batch_loop env plat self (infiles self) 0 0 w = (succeeded, failed, w1)"
    using run by (auto simp: process_batch_def Let_def split: prod.splits)
  from batch_loop_counts [OF this] K N show ?thesis by auto
qed

theorem batch_isolates_failures_witness:
  "item_results b_failing_env Posix two_self (infiles two_self) (locked_world 0)
     = [Inl (CalledProcessError 2 [''tools/bin/brr_encoder'', ''-sb16000'', ''in/b.wav'', ''out/b.brr'']
               [] ''bad input''), Inr ()]
   \<and> fst (process_batch b_failing_env Posix two_self (locked_world 0)) = 1
   \<and> fst (snd (process_batch b_failing_env Posix two_self (locked_world 0))) = 1"
proof -
  let ?run = "process_batch b_failing_env Posix two_self (locked_world 0)"
  have run: "?run = (fst ?run, fst (snd ?run), snd (snd ?run))" by simp
  have res: "item_results b_failing_env Posix two_self (infiles two_self) (locked_world 0)
     = [Inl (CalledProcessError 2 [''tools/bin/brr_encoder'', ''-sb16000'', ''in/b.wav'', ''out/b.brr'']
               [] ''bad input''), Inr ()]"
    by (simp add: string_defs path_defs io_defs script_defs example_defs)
  then have K: "1 = length (filter isl
      (item_results b_failing_env Posix two_self (infiles two_self) (locked_world 0)))"
    by simp
  have N: "2 = length (infiles two_self)" by (simp add: example_defs)
  from batch_isolates_failures [OF run K N] res show ?thesis by simp
qed


section \<open>Set-up and the exit code\<close>

lemma get_infiles_frame:
  "get_infiles plat d w = (r, w1) \<Longrightarrow>
     proc_log w1 = proc_log w \<and> err w1 = err w \<and> fs w1 = fs w \<and> remove_log w1 = remove_log w"
  by (auto simp: get_infiles_def Let_def print_out_def split: if_splits)

lemma get_outpath_frame:
  "get_outpath plat d w = (r, w1) \<Longrightarrow>
     proc_log w1 = proc_log w \<and> err w1 = err w \<and> remove_log w1 = remove_log w"
  by (auto simp: get_outpath_def Let_def print_out_def os_makedirs_def split: if_splits prod.splits sum.splits)

lemma get_brrtools_bin_frame:
  "get_brrtools_bin plat d w = (r, w1) \<Longrightarrow> w1 = w"
  by (auto simp: get_brrtools_bin_def Let_def split: if_splits)

lemma where_bash_frame:
  "where_bash env w = (r, w1) \<Longrightarrow>
     proc_log w1 = proc_log w @ [[''where'', ''bash.exe'']] \<and> err w1 = err w
     \<and> remove_log w1 = remove_log w"
  by (auto simp: where_bash_def subprocess_run_def Let_def
           split: if_splits prod.splits sum.splits proc_outcome.splits option.splits)

lemma where_bash_error:
  "where_bash env w = (Inl e, w1) \<Longrightarrow> e = FileNotFoundError not_found_message"
  by (auto simp: where_bash_def subprocess_run_def Let_def
           split: if_splits prod.splits sum.splits proc_outcome.splits option.splits)

lemma find_cygwin_bash_frame:
  "find_cygwin_bash env w = (r, w1) \<Longrightarrow>
     (proc_log w1 = proc_log w \<or> proc_log w1 = proc_log w @ [[''where'', ''bash.exe'']])
     \<and> err w1 = err w \<and> remove_log w1 = remove_log w"
  by (auto simp: find_cygwin_bash_def split: option.splits dest: where_bash_frame)

lemma init_frame:
  assumes "init env plat b i d r w = (res, w1)"
  shows "(proc_log w1 = proc_log w \<or> proc_log w1 = proc_log w @ [[''where'', ''bash.exe'']])
     \<and> err w1 = err w \<and> remove_log w1 = remove_log w"
proof -
  obtain r1 wa where a: "get_infiles plat i w = (r1, wa)" by (cases "get_infiles plat i w")
  obtain r2 wb where b: "get_outpath plat d wa = (r2, wb)" by (cases "get_outpath plat d wa")
  obtain r3 wc where c: "get_brrtools_bin plat b wb = (r3, wc)" by (cases "get_brrtools_bin plat b wb")
  obtain r4 wd where d: "find_cygwin_bash env wc = (r4, wd)" by (cases "find_cygwin_bash env wc")
  note fa = get_infiles_frame [OF a] and fb = get_outpath_frame [OF b]
    and fc = get_brrtools_bin_frame [OF c] and fd = find_cygwin_bash_frame [OF d]
  show ?thesis
    using assms a b c d fa fb fc fd
    by (auto simp: init_def Let_def print_out_def split: sum.splits platform.splits)
qed


lemma main_setup_failed:
  assumes "init env plat (brrtools a) (indir a) (outdir a) (arg_rate a) w = (Inl e, w1)"
  shows "main env plat a w
       = (1, w1\<lparr>err := err w1 @ [Line ([newline] @ ''FATAL ERROR: '' @ str_exn e), Traceback e]\<rparr>)"
  using assms by (simp add: main_def print_err_def print_exc_def)

lemma main_setup_ok:
  assumes "init env plat (brrtools a) (indir a) (outdir a) (arg_rate a) w = (Inr self, w1)"
  shows "fst (main env plat a w) = 0"
  using assms by (simp add: main_def split: prod.splits)

lemma init_no_input_dir:
  assumes "\<not> is_dir (fs w) (str plat (Path plat i))"
  shows "init env plat b i d r w
       = (Inl (ValueError (''Input directory does not exist: '' @ str plat (Path plat i))), w)"
  using assms by (simp add: init_def get_infiles_def)

lemma init_no_wav:
  assumes "is_dir (fs w) (str plat (Path plat i))"
    and "filter (\<lambda>item. is_file (fs w) (str plat item) \<and> lower (suffix_of item) = ''.wav'')
           (iterdir plat (fs w) (Path plat i)) = []"
  shows "init env plat b i d r w
       = (Inl (ValueError (''No .wav files found in '' @ str plat (Path plat i))), w)"
  using assms by (simp add: init_def get_infiles_def)

lemma init_no_tools:
  assumes "get_infiles plat i w = (Inr found, w1)"
    and "get_outpath plat d w1 = (Inr out_path, w2)"
    and "\<not> is_dir (fs w2) (str plat (Path plat b))
         \<or> \<not> is_dir (fs w2) (str plat (joinpath plat (Path plat b) ''bin''))"
  shows "\<exists>m. init env plat b i d r w = (Inl (ValueError m), w2)"
  using assms by (auto simp: init_def get_brrtools_bin_def Let_def)

lemma init_no_shell:
  assumes "get_infiles Win32 i w = (Inr found, w1)"
    and "get_outpath Win32 d w1 = (Inr out_path, w2)"
    and "get_brrtools_bin Win32 b w2 = (Inr bin, w3)"
    and "find_cygwin_bash env w3 = (Inl e, w4)"
  shows "init env Win32 b i d r w = (Inl e, w4)"
  using assms by (simp add: init_def)


text \<open>
  C7. When \<^verbatim>\<open>__init__\<close> succeeds, the process ends with exit code 0, whatever the
  conversions did. When \<^verbatim>\<open>__init__\<close> raises, the process ends with exit code 1, and the
  error stream receives the line \<^verbatim>\<open>FATAL ERROR: ...\<close> with the message and then the
  traceback; nothing else was written to the error stream, and no tool was started (the
  only process set-up can start is \<^verbatim>\<open>where bash.exe\<close>). Set-up raises when the input
  directory is missing, when it holds no \<^verbatim>\<open>.wav\<close> file, when the tool directory or its
  \<^verbatim>\<open>bin\<close> is missing once the output directory is in place, and on \<^verbatim>\<open>win32\<close> when no
  Cygwin shell is found.
\<close>

theorem exit_codes:
  "(\<forall>self w1. init env plat (brrtools a) (indir a) (outdir a) (arg_rate a) w = (Inr self, w1)
       \<longrightarrow> fst (main env plat a w) = 0)
   \<and> (\<forall>e w1. init env plat (brrtools a) (indir a) (outdir a) (arg_rate a) w = (Inl e, w1)
       \<longrightarrow> main env plat a w
             = (1, w1\<lparr>err := err w1 @ [Line ([newline] @ ''FATAL ERROR: '' @ str_exn e), Traceback e]\<rparr>)
           \<and> err w1 = err w
           \<and> (proc_log w1 = proc_log w \<or> proc_log w1 = proc_log w @ [[''where'', ''bash.exe'']]))
   \<and> (\<not> is_dir (fs w) (str plat (Path plat (indir a))) \<longrightarrow> fst (main env plat a w) = 1)
   \<and> (is_dir (fs w) (str plat (Path plat (indir a)))
        \<and> filter (\<lambda>item. is_file (fs w) (str plat item) \<and> lower (suffix_of item) = ''.wav'')
             (iterdir plat (fs w) (Path plat (indir a))) = []
       \<longrightarrow> fst (main env plat a w) = 1)
   \<and> (\<forall>found w1 out_path w2.
        get_infiles plat (indir a) w = (Inr found, w1)
        \<and> get_outpath plat (outdir a) w1 = (Inr out_path, w2)
        \<and> (\<not> is_dir (fs w2) (str plat (Path plat (brrtools a)))
           \<or> \<not> is_dir (fs w2) (str plat (joinpath plat (Path plat (brrtools a)) ''bin'')))
       \<longrightarrow> fst (main env plat a w) = 1)
   \<and> (\<forall>found w1 out_path w2 bin w3 e w4.
        plat = Win32
        \<and> get_infiles plat (indir a) w = (Inr found, w1)
        \<and> get_outpath plat (outdir a) w1 = (Inr out_path, w2)
        \<and> get_brrtools_bin plat (brrtools a) w2 = (Inr bin, w3)
        \<and> find_cygwin_bash env w3 = (Inl e, w4)
       \<longrightarrow> fst (main env plat a w) = 1)"
proof (intro conjI allI impI)
  fix self w1
  assume "init env plat (brrtools a) (indir a) (outdir a) (arg_rate a) w = (Inr self, w1)"
  then show "fst (main env plat a w) = 0" by (rule main_setup_ok)
next
  fix e w1
  assume i: "init env plat (brrtools a) (indir a) (outdir a) (arg_rate a) w = (Inl e, w1)"
  show "main env plat a w
     = (1, w1\<lparr>err := err w1 @ [Line ([newline] @ ''FATAL ERROR: '' @ str_exn e), Traceback e]\<rparr>)"
    using i by (rule main_setup_failed)
  show "err w1 = err w" using init_frame [OF i] by simp
  show "proc_log w1 = proc_log w \<or> proc_log w1 = proc_log w @ [[''where'', ''bash.exe'']]"
    using init_frame [OF i] by simp
next
  assume "\<not> is_dir (fs w) (str plat (Path plat (indir a)))"
  from init_no_input_dir [OF this] show "fst (main env plat a w) = 1"
    by (simp add: main_setup_failed)
next
  assume "is_dir (fs w) (str plat (Path plat (indir a)))
        \<and> filter (\<lambda>item. is_file (fs w) (str plat item) \<and> lower (suffix_of item) = ''.wav'')
             (iterdir plat (fs w) (Path plat (indir a))) = []"
  then have "init env plat (brrtools a) (indir a) (outdir a) (arg_rate a) w
       = (Inl (ValueError (''No .wav files found in '' @ str plat (Path plat (indir a)))), w)"
    by (simp add: init_no_wav)
  then show "fst (main env plat a w) = 1" by (simp add: main_setup_failed)
next
  fix found w1 out_path w2
  assume "get_infiles plat (indir a) w = (Inr found, w1)
        \<and> get_outpath plat (outdir a) w1 = (Inr out_path, w2)
        \<and> (\<not> is_dir (fs w2) (str plat (Path plat (brrtools a)))
           \<or> \<not> is_dir (fs w2) (str plat (joinpath plat (Path plat (brrtools a)) ''bin'')))"
  then obtain m where "init env plat (brrtools a) (indir a) (outdir a) (arg_rate a) w
      = (Inl (ValueError m), w2)"
    using init_no_tools [of plat "indir a" w found w1 "outdir a" out_path w2 "brrtools a" env "arg_rate a"]
    by blast
  then show "fst (main env plat a w) = 1" by (simp add: main_setup_failed)
next
  fix found w1 out_path w2 bin w3 e w4
  assume "plat = Win32
        \<and> get_infiles plat (indir a) w = (Inr found, w1)
        \<and> get_outpath plat (outdir a) w1 = (Inr out_path, w2)
        \<and> get_brrtools_bin plat (brrtools a) w2 = (Inr bin, w3)
        \<and> find_cygwin_bash env w3 = (Inl e, w4)"
  then have "init env plat (brrtools a) (indir a) (outdir a) (arg_rate a) w = (Inl e, w4)"
    using init_no_shell by blast
  then show "fst (main env plat a w) = 1" by (simp add: main_setup_failed)
qed


theorem exit_codes_witness:
  "fst (main failing_env Posix good_args (locked_world 0)) = 0
   \<and> fst (main failing_env Posix bad_args (locked_world 0)) = 1
   \<and> err (snd (main failing_env Posix bad_args (locked_world 0)))
       = [Line ([newline] @ ''FATAL ERROR: Input directory does not exist: nowhere''),
          Traceback (ValueError ''Input directory does not exist: nowhere'')]
   \<and> proc_log (snd (main failing_env Posix bad_args (locked_world 0))) = []
   \<and> fst (main failing_env Posix no_wav_args (locked_world 0)) = 1
   \<and> fst (main failing_env Posix no_tools_args (locked_world 0)) = 1
   \<and> fst (main stale_root_env Win32 good_args windows_world) = 1"
proof -
  let ?w = "locked_world 0"
  note ev = string_defs path_defs io_defs script_defs example_defs
  have "fst (init failing_env Posix (brrtools good_args) (indir good_args) (outdir good_args)
               (arg_rate good_args) ?w) = Inr posix_self"
    by (simp add: ev)
  then have h1: "init failing_env Posix (brrtools good_args) (indir good_args) (outdir good_args)
               (arg_rate good_args) ?w
      = (Inr posix_self, snd (init failing_env Posix (brrtools good_args) (indir good_args)
               (outdir good_args) (arg_rate good_args) ?w))"
    by (simp add: prod_eq_iff)
  have h2: "init failing_env Posix (brrtools bad_args) (indir bad_args) (outdir bad_args)
               (arg_rate bad_args) ?w
      = (Inl (ValueError ''Input directory does not exist: nowhere''), ?w)"
    by (simp add: ev)
  have h4: "is_dir (fs ?w) (str Posix (Path Posix (indir no_wav_args)))
        \<and> filter (\<lambda>item. is_file (fs ?w) (str Posix item) \<and> lower (suffix_of item) = ''.wav'')
             (iterdir Posix (fs ?w) (Path Posix (indir no_wav_args))) = []"
    by (simp add: ev)
  let ?g = "get_infiles Posix (indir no_tools_args) ?w"
  let ?o = "get_outpath Posix (outdir no_tools_args) (snd ?g)"
  have "fst ?g = Inr [a_wav]" by (simp add: ev)
  then have g: "?g = (Inr [a_wav], snd ?g)" by (simp add: prod_eq_iff)
  have "fst ?o = Inr \<lparr>drv = [], root = [], tail = [''out'']\<rparr>" by (simp add: ev)
  then have o: "?o = (Inr \<lparr>drv = [], root = [], tail = [''out'']\<rparr>, snd ?o)"
    by (simp add: prod_eq_iff)
  have nt: "\<not> is_dir (fs (snd ?o)) (str Posix (Path Posix (brrtools no_tools_args)))"
    by (simp add: ev)
  let ?ww = "windows_world"
  let ?g' = "get_infiles Win32 (indir good_args) ?ww"
  let ?o' = "get_outpath Win32 (outdir good_args) (snd ?g')"
  let ?b' = "get_brrtools_bin Win32 (brrtools good_args) (snd ?o')"
  let ?f' = "find_cygwin_bash stale_root_env (snd ?b')"
  have "fst ?g' = Inr [\<lparr>drv = [], root = [], tail = [''in'', ''a.wav'']\<rparr>]" by (simp add: ev)
  then have g': "?g' = (Inr [\<lparr>drv = [], root = [], tail = [''in'', ''a.wav'']\<rparr>], snd ?g')"
    by (simp add: prod_eq_iff)
  have "fst ?o' = Inr \<lparr>drv = [], root = [], tail = [''out'']\<rparr>" by (simp add: ev)
  then have o': "?o' = (Inr \<lparr>drv = [], root = [], tail = [''out'']\<rparr>, snd ?o')"
    by (simp add: prod_eq_iff)
  have "fst ?b' = Inr \<lparr>drv = [], root = [], tail = [''tools'', ''bin'']\<rparr>" by (simp add: ev)
  then have b': "?b' = (Inr \<lparr>drv = [], root = [], tail = [''tools'', ''bin'']\<rparr>, snd ?b')"
    by (simp add: prod_eq_iff)
  have "fst ?f' = Inl (FileNotFoundError not_found_message)" by (simp add: ev)
  then have f': "?f' = (Inl (FileNotFoundError not_found_message), snd ?f')"
    by (simp add: prod_eq_iff)
  note c1 = exit_codes [of failing_env Posix good_args ?w, THEN conjunct1, rule_format, OF h1]
  note c2 = exit_codes [of failing_env Posix bad_args ?w, THEN conjunct2, THEN conjunct1,
      rule_format, OF h2]
  have nd: "\<not> is_dir (fs ?w) (str Posix (Path Posix (indir bad_args)))" by (simp add: ev)
  note c3 = exit_codes [of failing_env Posix bad_args ?w, THEN conjunct2, THEN conjunct2,
      THEN conjunct1, rule_format, OF nd]
  note c4 = exit_codes [of failing_env Posix no_wav_args ?w, THEN conjunct2, THEN conjunct2,
      THEN conjunct2, THEN conjunct1, rule_format, OF h4]
  note c5 = exit_codes [of failing_env Posix no_tools_args ?w, THEN conjunct2, THEN conjunct2,
      THEN conjunct2, THEN conjunct2, THEN conjunct1, rule_format, OF conjI [OF g conjI [OF o disjI1 [OF nt]]]]
  note c6 = exit_codes [of stale_root_env Win32 good_args ?ww, THEN conjunct2, THEN conjunct2,
      THEN conjunct2, THEN conjunct2, THEN conjunct2, rule_format,
      OF conjI [OF refl conjI [OF g' conjI [OF o' conjI [OF b' f']]]]]
  have e0: "err ?w = []" "proc_log ?w = []" by (simp_all add: example_defs)
  show ?thesis using c1 c2 c3 c4 c5 c6 e0 by simp
qed


section \<open>The search for the Cygwin shell\<close>

lemma search_locations_find:
  "search_locations f lines = find (cygwin_location f) (map strip lines)"
  by (induction lines) (auto simp: cygwin_location_def Let_def)

lemma where_bash_listed:
  assumes run: "run_proc env [''where'', ''bash.exe''] (fs w) = (outcome, f1)"
    and w1: "w1 = w\<lparr>fs := f1, proc_log := proc_log w @ [[''where'', ''bash.exe'']]\<rparr>"
  shows "where_bash env w =
           (case find (cygwin_location f1) (listed_locations outcome) of
              Some location \<Rightarrow> (Inr location, w1)
            | None \<Rightarrow> (Inl (FileNotFoundError not_found_message), w1))"
  using run w1
  by (cases outcome)
     (simp_all add: where_bash_def subprocess_run_def listed_locations_def search_locations_find
        split: option.splits)


text \<open>
  C9. Let \<^verbatim>\<open>CYGWIN_ROOT\<close> be set while \<^verbatim>\<open><root>/bin/bash.exe\<close> does not exist. The search
  does not fail there. It returns \<^verbatim>\<open>C:\cygwin64\bin\bash.exe\<close> if that exists, else
  \<^verbatim>\<open>C:\cygwin\bin\bash.exe\<close> if that exists, and else it runs \<^verbatim>\<open>where bash.exe\<close> and returns
  the first listed location that is a Cygwin shell (not under \<^verbatim>\<open>system32\<close>, mentioning
  \<^verbatim>\<open>cygwin\<close>, existing). The not-found error is raised only when all candidates are
  exhausted: neither conventional path exists, \<^verbatim>\<open>where\<close> was run, and no location it listed
  is a Cygwin shell. Whenever a listed location is a Cygwin shell and the conventional
  paths are absent, the search returns one.
\<close>

theorem cygwin_root_fallback:
  assumes root: "environ env ''CYGWIN_ROOT'' = Some cygwin_root"
    and missing: "\<not> path_exists (fs w)
        (str Win32 (joinpath Win32 (joinpath Win32 (Path Win32 cygwin_root) ''bin'') ''bash.exe''))"
    and c64: "c64 = str Win32 (Path Win32 ''C:/cygwin64/bin/bash.exe'')"
    and c32: "c32 = str Win32 (Path Win32 ''C:/cygwin/bin/bash.exe'')"
    and run: "run_proc env [''where'', ''bash.exe''] (fs w) = (outcome, f1)"
    and w1: "w1 = w\<lparr>fs := f1, proc_log := proc_log w @ [[''where'', ''bash.exe'']]\<rparr>"
    and listed: "listed = listed_locations outcome"
  shows "find_cygwin_bash env w
           = (if path_exists (fs w) c64 then (Inr c64, w)
              else if path_exists (fs w) c32 then (Inr c32, w)
              else (case find (cygwin_location f1) listed of
                      Some location \<Rightarrow> (Inr location, w1)
                    | None \<Rightarrow> (Inl (FileNotFoundError not_found_message), w1)))
       \<and> (\<forall>e w'. find_cygwin_bash env w = (Inl e, w') \<longrightarrow>
             e = FileNotFoundError not_found_message
             \<and> \<not> path_exists (fs w) c64 \<and> \<not> path_exists (fs w) c32
             \<and> w' = w1
             \<and> (\<forall>location \<in> set listed. \<not> cygwin_location f1 location))
       \<and> (\<forall>location.
             \<not> path_exists (fs w) c64 \<and> \<not> path_exists (fs w) c32
             \<and> location \<in> set listed \<and> cygwin_location f1 location \<longrightarrow>
             (\<exists>found. find_cygwin_bash env w = (Inr found, w1)
                \<and> find (cygwin_location f1) listed = Some found
                \<and> found \<in> set listed \<and> cygwin_location f1 found))"
proof -
  have fb: "find_cygwin_bash env w
           = (if path_exists (fs w) c64 then (Inr c64, w)
              else if path_exists (fs w) c32 then (Inr c32, w)
              else where_bash env w)"
    using root missing c64 c32
    by (cases "cygwin_root = []") (simp_all add: find_cygwin_bash_def possible_paths_def Let_def)
  have eq: "find_cygwin_bash env w
           = (if path_exists (fs w) c64 then (Inr c64, w)
              else if path_exists (fs w) c32 then (Inr c32, w)
              else (case find (cygwin_location f1) listed of
                      Some location \<Rightarrow> (Inr location, w1)
                    | None \<Rightarrow> (Inl (FileNotFoundError not_found_message), w1)))"
    unfolding fb where_bash_listed [OF run w1] listed ..
  have exhausted: "\<forall>e w'. find_cygwin_bash env w = (Inl e, w') \<longrightarrow>
             e = FileNotFoundError not_found_message
             \<and> \<not> path_exists (fs w) c64 \<and> \<not> path_exists (fs w) c32
             \<and> w' = w1
             \<and> (\<forall>location \<in> set listed. \<not> cygwin_location f1 location)"
  proof (intro allI impI)
    fix e w'
    assume f: "find_cygwin_bash env w = (Inl e, w')"
    with eq have n: "\<not> path_exists (fs w) c64" "\<not> path_exists (fs w) c32"
      by (auto split: if_splits)
    with eq f have "find (cygwin_location f1) listed = None"
      and "e = FileNotFoundError not_found_message" and "w' = w1"
      by (auto split: option.splits)
    then show "e = FileNotFoundError not_found_message
             \<and> \<not> path_exists (fs w) c64 \<and> \<not> path_exists (fs w) c32
             \<and> w' = w1
             \<and> (\<forall>location \<in> set listed. \<not> cygwin_location f1 location)"
      using n by (simp add: find_None_iff)
  qed
  have accepted: "\<forall>location.
             \<not> path_exists (fs w) c64 \<and> \<not> path_exists (fs w) c32
             \<and> location \<in> set listed \<and> cygwin_location f1 location \<longrightarrow>
             (\<exists>found. find_cygwin_bash env w = (Inr found, w1)
                \<and> find (cygwin_location f1) listed = Some found
                \<and> found \<in> set listed \<and> cygwin_location f1 found)"
  proof (intro allI impI)
    fix location
    assume a: "\<not> path_exists (fs w) c64 \<and> \<not> path_exists (fs w) c32
             \<and> location \<in> set listed \<and> cygwin_location f1 location"
    then have "find (cygwin_location f1) listed \<noteq> None" by (auto simp: find_None_iff)
    then obtain found where fo: "find (cygwin_location f1) listed = Some found" by auto
    then have "found \<in> set listed \<and> cygwin_location f1 found"
      by (auto simp: find_Some_iff)
    with fo a eq show "\<exists>found. find_cygwin_bash env w = (Inr found, w1)
                \<and> find (cygwin_location f1) listed = Some found
                \<and> found \<in> set listed \<and> cygwin_location f1 found"
      by simp
  qed
  from eq exhausted accepted show ?thesis by blast
qed


theorem cygwin_root_fallback_witness:
  "find_cygwin_bash stale_root_env cygwin_world
     = (Inr (''C:'' @ [backslash] @ ''cygwin'' @ [backslash] @ ''bin'' @ [backslash] @ ''bash.exe''),
        cygwin_world)
   \<and> fst (find_cygwin_bash stale_root_env windows_world) = Inl (FileNotFoundError not_found_message)
   \<and> proc_log (snd (find_cygwin_bash stale_root_env windows_world)) = [[''where'', ''bash.exe'']]
   \<and> listed_locations (Exited 0 (wsl_bash @ [newline] @ apps_bash @ [newline]) []) = [wsl_bash, apps_bash]
   \<and> fst (find_cygwin_bash where_env where_world) = Inr apps_bash"
proof -
  note ev = string_defs path_defs io_defs example_defs
  let ?where = "[''where'', ''bash.exe'']"
  let ?bin = "\<lambda>w. str Win32 (joinpath Win32 (joinpath Win32 (Path Win32 ''D:/tools/cygwin'') ''bin'') ''bash.exe'')"
  have root: "environ stale_root_env ''CYGWIN_ROOT'' = Some ''D:/tools/cygwin''"
    and root': "environ where_env ''CYGWIN_ROOT'' = Some ''D:/tools/cygwin''"
    by (simp_all add: example_defs)
  have m1: "\<not> path_exists (fs cygwin_world)
        (str Win32 (joinpath Win32 (joinpath Win32 (Path Win32 ''D:/tools/cygwin'') ''bin'') ''bash.exe''))"
    and m2: "\<not> path_exists (fs windows_world)
        (str Win32 (joinpath Win32 (joinpath Win32 (Path Win32 ''D:/tools/cygwin'') ''bin'') ''bash.exe''))"
    and m3: "\<not> path_exists (fs where_world)
        (str Win32 (joinpath Win32 (joinpath Win32 (Path Win32 ''D:/tools/cygwin'') ''bin'') ''bash.exe''))"
    by (simp_all add: ev)
  have r1: "run_proc stale_root_env ?where (fs cygwin_world) = (Exited 1 [] [], fs cygwin_world)"
    and r2: "run_proc stale_root_env ?where (fs windows_world) = (Exited 1 [] [], fs windows_world)"
    and r3: "run_proc where_env ?where (fs where_world)
        = (Exited 0 (wsl_bash @ [newline] @ apps_bash @ [newline]) [], fs where_world)"
    by (simp_all add: example_defs)
  have s32: "str Win32 (Path Win32 ''C:/cygwin/bin/bash.exe'')
      = ''C:'' @ [backslash] @ ''cygwin'' @ [backslash] @ ''bin'' @ [backslash] @ ''bash.exe''"
    by (simp add: ev)
  have p64: "\<not> path_exists (fs cygwin_world) (str Win32 (Path Win32 ''C:/cygwin64/bin/bash.exe''))"
    and p32: "path_exists (fs cygwin_world) (str Win32 (Path Win32 ''C:/cygwin/bin/bash.exe''))"
    by (simp_all add: ev)
  note a = cygwin_root_fallback [OF root m1 refl refl r1 refl refl, THEN conjunct1]
  have A: "find_cygwin_bash stale_root_env cygwin_world
     = (Inr (''C:'' @ [backslash] @ ''cygwin'' @ [backslash] @ ''bin'' @ [backslash] @ ''bash.exe''),
        cygwin_world)"
    using a p64 p32 s32 by simp
  have ff: "fst (find_cygwin_bash stale_root_env windows_world) = Inl (FileNotFoundError not_found_message)"
    by (simp add: ev script_defs)
  then have f: "find_cygwin_bash stale_root_env windows_world
      = (Inl (FileNotFoundError not_found_message), snd (find_cygwin_bash stale_root_env windows_world))"
    by (simp add: prod_eq_iff)
  note b = cygwin_root_fallback [OF root m2 refl refl r2 refl refl, THEN conjunct2, THEN conjunct1,
      rule_format, OF f]
  have C: "proc_log (snd (find_cygwin_bash stale_root_env windows_world)) = [[''where'', ''bash.exe'']]"
    using b by (simp add: example_defs)
  have L: "listed_locations (Exited 0 (wsl_bash @ [newline] @ apps_bash @ [newline]) [])
      = [wsl_bash, apps_bash]"
    by (simp add: ev)
  have n64: "\<not> path_exists (fs where_world) (str Win32 (Path Win32 ''C:/cygwin64/bin/bash.exe''))"
    and n32: "\<not> path_exists (fs where_world) (str Win32 (Path Win32 ''C:/cygwin/bin/bash.exe''))"
    by (simp_all add: ev)
  have loc: "cygwin_location (fs where_world) apps_bash" by (simp add: ev)
  have nwsl: "\<not> cygwin_location (fs where_world) wsl_bash" by (simp add: ev)
  have mem: "apps_bash \<in> set (listed_locations (Exited 0 (wsl_bash @ [newline] @ apps_bash @ [newline]) []))"
    unfolding L by simp
  note c = cygwin_root_fallback [OF root' m3 refl refl r3 refl refl, THEN conjunct2, THEN conjunct2,
      rule_format, OF conjI [OF n64 conjI [OF n32 conjI [OF mem loc]]]]
  have D: "fst (find_cygwin_bash where_env where_world) = Inr apps_bash"
    using c unfolding L using loc nwsl by auto
  show ?thesis using A ff C L D by (intro conjI)
qed


section \<open>Strings and paths\<close>

lemma split_on_nonempty: "split_on c s \<noteq> []"
  by (induction s) (auto split: list.splits)

lemma split_on_pieces: "x \<in> set (split_on c s) \<Longrightarrow> c \<notin> set x"
proof (induction s arbitrary: x)
  case Nil
  then show ?case by simp
next
  case (Cons a s)
  show ?case
  proof (cases "a = c")
    case True
    with Cons show ?thesis by auto
  next
    case False
    obtain w ws where sp: "split_on c s = w # ws"
      using split_on_nonempty [of c s] by (cases "split_on c s") auto
    with False Cons.prems have "x = a # w \<or> x \<in> set ws" by simp
    then show ?thesis
    proof
      assume "x = a # w"
      moreover have "c \<notin> set w" using Cons.IH [of w] sp by simp
      ultimately show ?thesis using False by auto
    next
      assume "x \<in> set ws"
      then show ?thesis using Cons.IH [of x] sp by simp
    qed
  qed
qed

lemma split_on_no_sep: "c \<notin> set s \<Longrightarrow> split_on c s = [s]"
  by (induction s) auto

lemma replace_absent: "a \<notin> set s \<Longrightarrow> replace a b s = s"
  by (induction s) (auto simp: replace_def)

lemma Path_valid_name:
  assumes "valid_name plat n"
  shows "Path plat n = \<lparr>drv = [], root = [], tail = [n]\<rparr>"
proof (cases plat)
  case Posix
  from assms obtain a s where n: "n = a # s" "a \<noteq> slash" "slash \<notin> set n" "n \<noteq> ''.''"
    by (cases n) (auto simp: valid_name_def)
  then have sr: "posix_splitroot n = ([], [], n)" by (simp add: posix_splitroot_def)
  have ne: "n \<noteq> []" using n by simp
  show ?thesis using Posix ne n(4)
    by (simp add: Path_def sep_def sr split_on_no_sep [OF n(3)])
next
  case Win32
  from assms Win32 obtain a s where n: "n = a # s" "a \<noteq> slash" "a \<noteq> backslash" "slash \<notin> set n"
      "backslash \<notin> set n" "n \<noteq> ''.''" "take 1 s \<noteq> '':''"
    by (cases n) (auto simp: valid_name_def)
  then have sr: "nt_splitroot n = ([], [], n)" by (simp add: nt_splitroot_def)
  have rp: "replace slash backslash n = n" using n by (simp add: replace_absent)
  have ne: "n \<noteq> []" using n by simp
  show ?thesis using Win32 ne n(6)
    by (simp add: Path_def sep_def rp sr split_on_no_sep [OF n(5)])
qed

lemma joinpath_valid_name:
  fixes p :: pure_path
  assumes "valid_name plat n"
  shows "joinpath plat p n = p\<lparr>tail := tail p @ [n]\<rparr>"
  by (simp add: joinpath_def join_parsed_parts_def Path_valid_name [OF assms])

lemma name_child: "name (p\<lparr>tail := tail p @ [n]\<rparr>) = n"
  by (simp add: name_def)


section \<open>The paths of one job\<close>

lemma get_infiles_found:
  assumes "get_infiles plat i w = (Inr found, w1)" and "item \<in> set found"
  shows "\<exists>n \<in> set (listdir (fs w) (str plat (Path plat i))).
           item = (Path plat i)\<lparr>tail := tail (Path plat i) @ [n]\<rparr>"
    and "is_file (fs w) (str plat item)" and "lower (suffix_of item) = ''.wav''"
proof -
  from assms(1) have "found = filter (\<lambda>item. is_file (fs w) (str plat item) \<and> lower (suffix_of item) = ''.wav'')
                         (iterdir plat (fs w) (Path plat i))"
    by (auto simp: get_infiles_def Let_def split: if_splits)
  with assms(2) show "\<exists>n \<in> set (listdir (fs w) (str plat (Path plat i))).
           item = (Path plat i)\<lparr>tail := tail (Path plat i) @ [n]\<rparr>"
    and "is_file (fs w) (str plat item)" and "lower (suffix_of item) = ''.wav''"
    by (auto simp: iterdir_def)
qed

lemma get_outpath_value: "get_outpath plat d w = (Inr p, w1) \<Longrightarrow> p = Path plat d"
  by (auto simp: get_outpath_def Let_def split: if_splits prod.splits sum.splits)

lemma init_ok_fields:
  assumes "init env plat b i d r w = (Inr self, w1)"
  shows "\<exists>wa. get_infiles plat i w = (Inr (infiles self), wa)"
    and "outpath self = Path plat d" and "rate self = r"
proof -
  obtain r1 wa where a: "get_infiles plat i w = (r1, wa)" by (cases "get_infiles plat i w")
  obtain r2 wb where b: "get_outpath plat d wa = (r2, wb)" by (cases "get_outpath plat d wa")
  obtain r3 wc where c: "get_brrtools_bin plat b wb = (r3, wc)" by (cases "get_brrtools_bin plat b wb")
  obtain r4 wd where d: "find_cygwin_bash env wc = (r4, wd)" by (cases "find_cygwin_bash env wc")
  from assms a b c d have
    "r1 = Inr (infiles self) \<and> r2 = Inr (outpath self) \<and> rate self = r"
    by (auto simp: init_def Let_def split: sum.splits platform.splits)
  with a b get_outpath_value show "\<exists>wa. get_infiles plat i w = (Inr (infiles self), wa)"
    and "outpath self = Path plat d" and "rate self = r"
    by auto
qed


text \<open>
  C10. Let set-up succeed with an output directory whose path is the path of the input
  directory, and let the directory list well-formed names. Then for every discovered
  file the output path of its job is its input path. So on POSIX the decoder's output
  argument is the very string the encoder read from, and on \<^verbatim>\<open>win32\<close> the decode command
  ends with the translation of the input path: the decode stage writes over the source
  file.
\<close>

theorem same_directory_overwrites_input:
  assumes init: "init env plat b i d r w = (Inr self, w1)"
    and same: "Path plat d = Path plat i"
    and names: "\<forall>n \<in> set (listdir (fs w) (str plat (Path plat i))). valid_name plat n"
    and infile: "infile \<in> set (infiles self)"
  shows "out_wav_of plat self infile = infile
       \<and> name (out_wav_of plat self infile) = name infile
       \<and> (plat = Posix \<longrightarrow>
            encode_args env plat self infile f bash ! 2 = str plat infile
            \<and> decode_args env plat self infile f bash ! 4 = str plat infile)
       \<and> (plat = Win32 \<longrightarrow>
            decode_args env plat self infile f bash ! 2
              = quoted (windows_to_cygwin_path env f
                          (str plat (joinpath plat (brrtools_bin self) ''brr_decoder'')))
                @ '' -s'' @ str_int (rate self) @ '' -g ''
                @ quoted (windows_to_cygwin_path env f (str plat (tmp_brr_of plat self infile)))
                @ '' '' @ quoted (windows_to_cygwin_path env f (str plat infile)))"
proof -
  from init_ok_fields [OF init] obtain wa where
    g: "get_infiles plat i w = (Inr (infiles self), wa)" and o: "outpath self = Path plat d"
    by blast
  from get_infiles_found(1) [OF g infile] obtain n where
    n: "n \<in> set (listdir (fs w) (str plat (Path plat i)))"
      "infile = (Path plat i)\<lparr>tail := tail (Path plat i) @ [n]\<rparr>"
    by blast
  from names n(1) have v: "valid_name plat n" by blast
  have nm: "name infile = n" unfolding n(2) by (rule name_child)
  have ow: "out_wav_of plat self infile = infile"
    unfolding out_wav_of_def nm o same joinpath_valid_name [OF v] by (simp add: n(2))
  show ?thesis
    using ow by (cases plat) (simp_all add: encode_args_def decode_args_def Let_def)
qed

theorem same_directory_overwrites_input_witness:
  "out_wav_of Posix (posix_self\<lparr>outpath := \<lparr>drv = [], root = [], tail = [''in'']\<rparr>\<rparr>) a_wav = a_wav
   \<and> decode_args ok_env Posix (posix_self\<lparr>outpath := \<lparr>drv = [], root = [], tail = [''in'']\<rparr>\<rparr>)
        a_wav (fs (locked_world 0)) []
      = [''tools/bin/brr_decoder'', ''-s16000'', ''-g'', ''in/a.brr'', ''in/a.wav'']"
proof -
  note ev = string_defs path_defs io_defs script_defs example_defs
  let ?self = "posix_self\<lparr>outpath := \<lparr>drv = [], root = [], tail = [''in'']\<rparr>\<rparr>"
  let ?init = "init ok_env Posix (brrtools in_place_args) (indir in_place_args)
      (outdir in_place_args) (arg_rate in_place_args) (locked_world 0)"
  have "fst ?init = Inr ?self" by (simp add: ev)
  then have init: "init ok_env Posix (brrtools in_place_args) (indir in_place_args)
      (outdir in_place_args) (arg_rate in_place_args) (locked_world 0) = (Inr ?self, snd ?init)"
    by (simp add: prod_eq_iff)
  have same: "Path Posix (outdir in_place_args) = Path Posix (indir in_place_args)"
    by (simp add: example_defs)
  have names: "\<forall>n \<in> set (listdir (fs (locked_world 0)) (str Posix (Path Posix (indir in_place_args)))).
      valid_name Posix n"
    by (simp add: ev)
  have infile: "a_wav \<in> set (infiles ?self)" by (simp add: example_defs)
  note t = same_directory_overwrites_input [OF init same names infile, where f = "fs (locked_world 0)" and bash = "[]"]
  have d: "decode_args ok_env Posix ?self a_wav (fs (locked_world 0)) []
      = [''tools/bin/brr_decoder'', ''-s16000'', ''-g'', ''in/a.brr'', ''in/a.wav'']"
    by (simp add: ev)
  from t d show ?thesis by simp
qed


section \<open>The temporary path of a job\<close>

lemma find_last_Some: "find_last c s = Some i \<Longrightarrow> i < length s \<and> s ! i = c"
  by (induction s arbitrary: i) (auto split: option.splits if_splits)

lemma stem_suffix:
  assumes "suffix_of p \<noteq> []"
  shows "name p = stem p @ suffix_of p" and "stem p \<noteq> []"
    and "set (stem p) \<subseteq> set (name p)" and "take 1 (suffix_of p) = ''.''"
    and "1 < length (stem p) \<Longrightarrow> take 2 (stem p) = take 2 (name p)"
proof -
  obtain i where i: "find_last CHR ''.'' (name p) = Some i"
    using assms by (cases "find_last CHR ''.'' (name p)") (auto simp: suffix_of_def rfind_def Let_def)
  with assms have r: "0 < i" "i < length (name p) - 1"
    by (auto simp: suffix_of_def rfind_def Let_def split: if_splits)
  then have st: "stem p = take i (name p)" and su: "suffix_of p = drop i (name p)"
    using i by (auto simp: stem_def suffix_of_def rfind_def Let_def)
  show "name p = stem p @ suffix_of p" unfolding st su by simp
  show "stem p \<noteq> []" unfolding st using r by auto
  show "set (stem p) \<subseteq> set (name p)" unfolding st by (rule set_take_subset)
  have "name p ! i = CHR ''.''" using find_last_Some [OF i] by simp
  moreover have "i < length (name p)" using r by simp
  then have "drop i (name p) = name p ! i # drop (Suc i) (name p)"
    by (simp add: Cons_nth_drop_Suc)
  ultimately show "take 1 (suffix_of p) = ''.''"
    unfolding su by simp
  show "take 2 (stem p) = take 2 (name p)" if "1 < length (stem p)"
  proof -
    from that have "2 \<le> i" unfolding st by simp
    then have "min 2 i = 2" by simp
    then show ?thesis unfolding st take_take by simp
  qed
qed


lemma stem_brr_valid:
  assumes v: "valid_name plat (name p)" and w: "lower (suffix_of p) = ''.wav''"
  shows "valid_name plat (stem p @ ''.brr'')"
proof -
  from w have ne: "suffix_of p \<noteq> []" by (auto simp: lower_def)
  note ss = stem_suffix [OF ne]
  obtain x xs where st: "stem p = x # xs" using ss(2) by (cases "stem p") auto
  have nm: "name p = x # xs @ suffix_of p" using ss(1) st by simp
  have sl: "slash \<notin> set (stem p)" using v ss(3) by (auto simp: valid_name_def)
  have basic: "stem p @ ''.brr'' \<noteq> [] \<and> stem p @ ''.brr'' \<noteq> ''.'' \<and> slash \<notin> set (stem p @ ''.brr'')"
    using sl st by simp
  show ?thesis
  proof (cases plat)
    case Posix
    with basic show ?thesis by (simp add: valid_name_def)
  next
    case Win32
    with v have bs: "backslash \<notin> set (name p)" and col: "take 1 (drop 1 (name p)) \<noteq> '':''"
      by (auto simp: valid_name_def)
    have b1: "backslash \<notin> set (stem p @ ''.brr'')" using bs ss(3) by auto
    have b2: "take 1 (drop 1 (stem p @ ''.brr'')) \<noteq> '':''"
    proof (cases xs)
      case Nil
      with st show ?thesis by simp
    next
      case (Cons y ys)
      with col nm have "y \<noteq> CHR '':''" by simp
      with st Cons show ?thesis by simp
    qed
    from basic b1 b2 Win32 show ?thesis by (simp add: valid_name_def)
  qed
qed


text \<open>
  C2, as amended. Among the files that \<^verbatim>\<open>get_infiles\<close> discovers in a directory that
  lists well-formed names, the temporary path of a job is the output directory extended
  by one component, the stem of the input file followed by \<^verbatim>\<open>.brr\<close>: it lies directly
  inside the output directory. Two jobs have the same temporary path exactly when their
  input files have the same stem; two distinct discovered files with the same stem differ
  in their suffix only, and both suffixes are \<^verbatim>\<open>.wav\<close> up to letter case.
\<close>

theorem temp_paths_by_stem:
  assumes g: "get_infiles plat i w = (Inr found, w1)"
    and names: "\<forall>n \<in> set (listdir (fs w) (str plat (Path plat i))). valid_name plat n"
    and a: "a \<in> set found" and b: "b \<in> set found"
  shows "tmp_brr_of plat self a = (outpath self)\<lparr>tail := tail (outpath self) @ [stem a @ ''.brr'']\<rparr>
       \<and> (tmp_brr_of plat self a = tmp_brr_of plat self b \<longleftrightarrow> stem a = stem b)
       \<and> name a = stem a @ suffix_of a \<and> lower (suffix_of a) = ''.wav''
       \<and> (a \<noteq> b \<and> stem a = stem b \<longrightarrow> suffix_of a \<noteq> suffix_of b)"
proof -
  have child: "\<exists>n. valid_name plat n \<and> x = (Path plat i)\<lparr>tail := tail (Path plat i) @ [n]\<rparr>"
    if "x \<in> set found" for x
    using get_infiles_found(1) [OF g that] names by blast
  have v: "valid_name plat (name x)" if "x \<in> set found" for x
    using child [OF that] by (auto simp: name_def)
  have sw: "lower (suffix_of x) = ''.wav''" if "x \<in> set found" for x
    using get_infiles_found(3) [OF g that] .
  have tmp: "tmp_brr_of plat self x = (outpath self)\<lparr>tail := tail (outpath self) @ [stem x @ ''.brr'']\<rparr>"
    if "x \<in> set found" for x
    unfolding tmp_brr_of_def by (rule joinpath_valid_name [OF stem_brr_valid [OF v [OF that] sw [OF that]]])
  have nm: "name x = stem x @ suffix_of x" if "x \<in> set found" for x
  proof -
    from sw [OF that] have "suffix_of x \<noteq> []" by (auto simp: lower_def)
    then show ?thesis by (rule stem_suffix(1))
  qed
  have eq: "tmp_brr_of plat self a = tmp_brr_of plat self b \<longleftrightarrow> stem a = stem b"
  proof
    assume "tmp_brr_of plat self a = tmp_brr_of plat self b"
    then have "tail (tmp_brr_of plat self a) = tail (tmp_brr_of plat self b)" by simp
    then have "tail (outpath self) @ [stem a @ ''.brr''] = tail (outpath self) @ [stem b @ ''.brr'']"
      unfolding tmp [OF a] tmp [OF b] by simp
    then show "stem a = stem b" by simp
  next
    assume "stem a = stem b"
    then show "tmp_brr_of plat self a = tmp_brr_of plat self b" by (simp add: tmp_brr_of_def)
  qed
  have diff: "suffix_of a \<noteq> suffix_of b" if "a \<noteq> b \<and> stem a = stem b"
  proof
    assume "suffix_of a = suffix_of b"
    with that nm [OF a] nm [OF b] have n: "name a = name b" by simp
    from child [OF a] child [OF b] obtain na nb where
      "a = (Path plat i)\<lparr>tail := tail (Path plat i) @ [na]\<rparr>"
      "b = (Path plat i)\<lparr>tail := tail (Path plat i) @ [nb]\<rparr>" by blast
    with n have "a = b" by (simp add: name_def)
    with that show False by simp
  qed
  show ?thesis using tmp [OF a] eq nm [OF a] sw [OF a] diff by blast
qed

theorem temp_paths_by_stem_witness:
  "tmp_brr_of Posix posix_self a_WAV = \<lparr>drv = [], root = [], tail = [''out'', ''a.brr'']\<rparr>
   \<and> stem a_WAV = stem a_wav \<and> suffix_of a_WAV \<noteq> suffix_of a_wav
   \<and> stem b_wav \<noteq> stem a_wav
   \<and> tmp_brr_of Posix posix_self b_wav \<noteq> tmp_brr_of Posix posix_self a_wav"
proof -
  note ev = string_defs path_defs io_defs script_defs example_defs
  let ?g = "get_infiles Posix ''in'' case_world"
  have "fst ?g = Inr [a_wav, a_WAV]" by (simp add: ev)
  then have g: "?g = (Inr [a_wav, a_WAV], snd ?g)" by (simp add: prod_eq_iff)
  have names: "\<forall>n \<in> set (listdir (fs case_world) (str Posix (Path Posix ''in''))). valid_name Posix n"
    by (simp add: ev)
  have a: "a_WAV \<in> set [a_wav, a_WAV]" and b: "a_wav \<in> set [a_wav, a_WAV]" by simp_all
  note t1 = temp_paths_by_stem [OF g names a b, of posix_self]
  let ?w = "case_world\<lparr>fs := (fs case_world)\<lparr>files := {''in/a.wav'', ''in/b.wav''},
      listdir := (\<lambda>d. if d = ''in'' then [''b.wav'', ''a.wav''] else [])\<rparr>\<rparr>"
  let ?h = "get_infiles Posix ''in'' ?w"
  have "fst ?h = Inr [b_wav, a_wav]" by (simp add: ev)
  then have h: "?h = (Inr [b_wav, a_wav], snd ?h)" by (simp add: prod_eq_iff)
  have names2: "\<forall>n \<in> set (listdir (fs ?w) (str Posix (Path Posix ''in''))). valid_name Posix n"
    by (simp add: ev)
  have a2: "b_wav \<in> set [b_wav, a_wav]" and b2: "a_wav \<in> set [b_wav, a_wav]" by simp_all
  note t2 = temp_paths_by_stem [OF h names2 a2 b2, of posix_self]
  have o: "outpath posix_self = \<lparr>drv = [], root = [], tail = [''out'']\<rparr>" by (simp add: example_defs)
  have s: "stem a_WAV = ''a''" "stem a_wav = ''a''" "stem b_wav = ''b''" by (simp_all add: ev)
  have d: "a_WAV \<noteq> a_wav" by (simp add: example_defs)
  have c1: "tmp_brr_of Posix posix_self a_WAV = \<lparr>drv = [], root = [], tail = [''out'', ''a.brr'']\<rparr>"
    using t1 [THEN conjunct1] o s by simp
  have c3: "suffix_of a_WAV \<noteq> suffix_of a_wav"
    using t1 [THEN conjunct2, THEN conjunct2, THEN conjunct2, THEN conjunct2] s d by simp
  have c5: "tmp_brr_of Posix posix_self b_wav \<noteq> tmp_brr_of Posix posix_self a_wav"
    using t2 [THEN conjunct2, THEN conjunct1] s by simp
  show ?thesis using c1 c3 c5 s by simp
qed


text \<open>
  C2, as stated, fails: \<^verbatim>\<open>in/a.wav\<close> and \<^verbatim>\<open>in/a.WAV\<close> are two distinct discovered files,
  and the jobs of both use the temporary path \<^verbatim>\<open>out/a.brr\<close>.
\<close>

theorem temp_paths_collide:
  "fst (get_infiles Posix ''in'' case_world) = Inr [a_wav, a_WAV]
   \<and> a_wav \<noteq> a_WAV
   \<and> tmp_brr_of Posix posix_self a_wav = tmp_brr_of Posix posix_self a_WAV"
  by (simp add: string_defs path_defs io_defs script_defs example_defs)



section \<open>The translation of Windows paths\<close>

lemma Path_tail_no_sep:
  assumes "x \<in> set (tail (Path plat s))"
  shows "sep plat \<notin> set x"
proof (cases "s = []")
  case True
  with assms show ?thesis by (simp add: Path_def)
next
  case False
  obtain d r rel where sr:
    "(case plat of Win32 \<Rightarrow> nt_splitroot (case plat of Win32 \<Rightarrow> replace slash backslash s | Posix \<Rightarrow> s)
                 | Posix \<Rightarrow> posix_splitroot (case plat of Win32 \<Rightarrow> replace slash backslash s | Posix \<Rightarrow> s))
       = (d, r, rel)"
    by (metis prod_cases3)
  with False have "tail (Path plat s) = filter (\<lambda>x. x \<noteq> [] \<and> x \<noteq> ''.'') (split_on (sep plat) rel)"
    by (simp add: Path_def Let_def)
  with assms have "x \<in> set (split_on (sep plat) rel)" by simp
  then show ?thesis by (rule split_on_pieces)
qed

lemma join_no_char:
  assumes "\<forall>x \<in> set xs. c \<notin> set x" and "c \<notin> set s"
  shows "c \<notin> set (join s xs)"
  using assms by (induction s xs rule: join.induct) auto

lemma starts_with_append: "starts_with a (a @ b)"
  by (induction a) auto


lemma parts_rest_no_backslash:
  assumes "x \<in> set (drop 1 (parts (Path Win32 s)))"
  shows "backslash \<notin> set x"
proof -
  have "set (drop 1 (parts (Path Win32 s))) \<subseteq> set (tail (Path Win32 s))"
    by (auto simp: parts_def dest: in_set_dropD)
  with assms have "x \<in> set (tail (Path Win32 s))" by blast
  from Path_tail_no_sep [OF this] show ?thesis by (simp add: sep_def)
qed


lemma find_from_ge: "find_from c start s = Some i \<Longrightarrow> start \<le> i"
  by (auto simp: find_from_def)

lemma nt_splitroot_first:
  assumes sr: "nt_splitroot p = (d, r, rel)"
    and len: "3 \<le> length (d @ r')" and colon: "(d @ r') ! 1 = CHR '':''"
    and r': "r' = r \<or> r' = [backslash]"
  shows "(d @ r') ! 0 \<noteq> backslash \<and> d \<noteq> []"
proof (cases "take 1 p = [backslash]")
  case True
  then obtain q where p: "p = backslash # q" by (cases p) auto
  show ?thesis
  proof (cases "take 1 q = [backslash]")
    case True
    then obtain q' where q: "q = backslash # q'" by (cases q) auto
    have "take 2 d = [backslash, backslash]"
    proof (cases "find_from backslash 2 p")
      case None
      with sr p q have "d = backslash # backslash # q'" by (auto simp: nt_splitroot_def)
      then show ?thesis by simp
    next
      case (Some index)
      show ?thesis
      proof (cases "find_from backslash (index + 1) p")
        case None
        with sr p q Some have "d = backslash # backslash # q'" by (auto simp: nt_splitroot_def)
        then show ?thesis by simp
      next
        case (Some index2)
        from find_from_ge [OF \<open>find_from backslash 2 p = Some index\<close>] find_from_ge [OF Some]
        have "3 \<le> index2" by simp
        then obtain k where k: "index2 = Suc (Suc k)" by (cases index2; cases "index2 - 1") auto
        from sr p q \<open>find_from backslash 2 p = Some index\<close> Some
        have "d = take index2 p" by (simp add: nt_splitroot_def)
        then show ?thesis using p q k by simp
      qed
    qed
    then have "(d @ r') ! 1 = backslash"
      by (cases d; cases "tl d") auto
    with colon show ?thesis by simp
  next
    case False
    with sr p have "d = []" "r = [backslash]" by (auto simp: nt_splitroot_def)
    with r' len show ?thesis by auto
  qed
next
  case False
  show ?thesis
  proof (cases "take 1 (drop 1 p) = '':''")
    case True
    then obtain a q where p: "p = a # CHR '':'' # q" by (cases p; cases "tl p") auto
    with False have a: "a \<noteq> backslash" by simp
    from sr False True p have "d = [a, CHR '':'']" by (auto simp: nt_splitroot_def split: if_splits)
    with a show ?thesis by simp
  next
    case F2: False
    with sr False have "d = []" "r = []" by (auto simp: nt_splitroot_def)
    with r' len show ?thesis by auto
  qed
qed


lemma drive_part_first_char:
  assumes ps: "ps = parts (Path Win32 s)"
    and anchor: "0 < length ps" "length (ps ! 0) = 3" "ps ! 0 ! 1 = CHR '':''"
  shows "ps ! 0 ! 0 \<noteq> backslash"
proof (cases "drv (Path Win32 s) @ root (Path Win32 s) = []")
  case True
  with ps anchor(1) have "ps ! 0 \<in> set (tail (Path Win32 s))" by (simp add: parts_def)
  from Path_tail_no_sep [OF this] have "backslash \<notin> set (ps ! 0)" by (simp add: sep_def)
  moreover have "ps ! 0 ! 0 \<in> set (ps ! 0)" using anchor(2) by (intro nth_mem) simp
  ultimately show ?thesis by auto
next
  case False
  then have s: "s \<noteq> []" by (auto simp: Path_def)
  obtain d r rel where sr: "nt_splitroot (replace slash backslash s) = (d, r, rel)"
    by (metis prod_cases3)
  have dr: "drv (Path Win32 s) = d"
    and rt: "root (Path Win32 s) = r \<or> root (Path Win32 s) = [backslash]"
    using s sr by (auto simp: Path_def Let_def sep_def)
  from False ps have p0: "ps ! 0 = d @ root (Path Win32 s)" by (simp add: parts_def dr)
  have "3 \<le> length (d @ root (Path Win32 s))" using anchor(2) p0 by simp
  moreover have "(d @ root (Path Win32 s)) ! 1 = CHR '':''" using anchor(3) p0 by simp
  ultimately have "(d @ root (Path Win32 s)) ! 0 \<noteq> backslash"
    using nt_splitroot_first [OF sr _ _ rt] by blast
  with p0 show ?thesis by simp
qed

lemma lower_char_backslash: "lower_char c = backslash \<Longrightarrow> c = backslash"
  by (auto simp: lower_char_def split: if_splits)

lemma translation_no_backslash: "backslash \<notin> set (windows_to_cygwin_path env f win_path)"
proof -
  let ?ps = "parts (resolve env f (Path Win32 win_path))"
  show ?thesis
  proof (cases "0 < length ?ps \<and> length (?ps ! 0) = 3 \<and> ?ps ! 0 ! 1 = CHR '':''")
    case True
    then have eq: "windows_to_cygwin_path env f win_path
           = ''/cygdrive/'' @ lower [?ps ! 0 ! 0] @ ''/'' @ join ''/'' (drop 1 ?ps)"
      by (simp add: windows_to_cygwin_path_def Let_def)
    have "\<forall>x \<in> set (drop 1 ?ps). backslash \<notin> set x"
      unfolding resolve_def using parts_rest_no_backslash by blast
    then have "backslash \<notin> set (join ''/'' (drop 1 ?ps))"
      by (rule join_no_char) simp
    moreover have "?ps ! 0 ! 0 \<noteq> backslash"
      using True drive_part_first_char [of ?ps "realpath env f (str Win32 (Path Win32 win_path))"]
      by (simp add: resolve_def)
    then have "backslash \<notin> set (lower [?ps ! 0 ! 0])"
      using lower_char_backslash by (auto simp: lower_def)
    ultimately show ?thesis unfolding eq by simp
  next
    case False
    then have "windows_to_cygwin_path env f win_path
        = replace backslash slash (str Win32 (resolve env f (Path Win32 win_path)))"
      by (auto simp: windows_to_cygwin_path_def Let_def)
    then show ?thesis by (auto simp: replace_def)
  qed
qed


text \<open>
  C6, as amended. Let the first part of the path as \<^verbatim>\<open>resolve\<close> returns it be three
  characters long with a colon in second place (a letter, a colon and a separator: the
  path is on a lettered drive). Then the translation is \<^verbatim>\<open>/cygdrive/\<close>, the lower-cased
  letter, a slash, and the remaining parts joined by slashes: it starts with the mount
  prefix and the lower-cased drive letter. The translation of any path, whatever
  \<^verbatim>\<open>resolve\<close> returns for it, contains no backslash.
\<close>

theorem drive_letter_translation:
  assumes ps: "ps = parts (resolve env f (Path Win32 win_path))"
    and anchor: "0 < length ps" "length (ps ! 0) = 3" "ps ! 0 ! 1 = CHR '':''"
  shows "windows_to_cygwin_path env f win_path
           = ''/cygdrive/'' @ lower [ps ! 0 ! 0] @ ''/'' @ join ''/'' (drop 1 ps)
       \<and> starts_with (''/cygdrive/'' @ lower [ps ! 0 ! 0]) (windows_to_cygwin_path env f win_path)
       \<and> backslash \<notin> set (windows_to_cygwin_path env f win_path)
       \<and> (\<forall>env' f' p. backslash \<notin> set (windows_to_cygwin_path env' f' p))"
proof -
  have eq: "windows_to_cygwin_path env f win_path
           = ''/cygdrive/'' @ lower [ps ! 0 ! 0] @ ''/'' @ join ''/'' (drop 1 ps)"
    using anchor unfolding ps by (simp add: windows_to_cygwin_path_def Let_def)
  have sw: "starts_with (''/cygdrive/'' @ lower [ps ! 0 ! 0]) (windows_to_cygwin_path env f win_path)"
    using starts_with_append [of "''/cygdrive/'' @ lower [ps ! 0 ! 0]" "''/'' @ join ''/'' (drop 1 ps)"]
    unfolding eq by simp
  from eq sw translation_no_backslash show ?thesis by blast
qed

theorem drive_letter_translation_witness:
  "windows_to_cygwin_path ok_env (fs windows_world)
       (''C:'' @ [backslash] @ ''Users'' @ [backslash] @ ''file.wav'')
     = ''/cygdrive/c/Users/file.wav''
   \<and> starts_with ''/cygdrive/c'' (windows_to_cygwin_path ok_env (fs windows_world)
       (''C:'' @ [backslash] @ ''Users'' @ [backslash] @ ''file.wav''))
   \<and> backslash \<notin> set (windows_to_cygwin_path ok_env (fs windows_world)
       (''C:'' @ [backslash] @ ''Users'' @ [backslash] @ ''file.wav''))
   \<and> backslash \<notin> set (windows_to_cygwin_path mapped_drive_env (fs windows_world) song_on_z)"
proof -
  note ev = string_defs path_defs io_defs script_defs example_defs
  let ?p = "''C:'' @ [backslash] @ ''Users'' @ [backslash] @ ''file.wav''"
  have ps: "[''C:'' @ [backslash], ''Users'', ''file.wav'']
      = parts (resolve ok_env (fs windows_world) (Path Win32 ?p))"
    by (simp add: ev)
  have anchor: "0 < length [''C:'' @ [backslash], ''Users'', ''file.wav'']"
    "length ([''C:'' @ [backslash], ''Users'', ''file.wav''] ! 0) = 3"
    "[''C:'' @ [backslash], ''Users'', ''file.wav''] ! 0 ! 1 = CHR '':''"
    by simp_all
  note t = drive_letter_translation [OF ps anchor]
  have l: "lower ''C'' = ''c''" by (simp add: string_defs)
  from t l show ?thesis by simp
qed

text \<open>
  C6, as stated, fails: \<^verbatim>\<open>Z:\Music\song.wav\<close> is an absolute path whose first part is the
  drive letter \<^verbatim>\<open>Z\<close>, a colon and a separator; where drive \<^verbatim>\<open>Z:\<close> is mapped to a network
  share, \<^verbatim>\<open>resolve\<close> returns the UNC path, the test of line 229 fails, and the translation
  is \<^verbatim>\<open>//server/share/Music/song.wav\<close>, which does not start with the mount prefix.
\<close>

theorem mapped_drive_leaves_mount_prefix:
  "parts (Path Win32 song_on_z) = [''Z:'' @ [backslash], ''Music'', ''song.wav'']
   \<and> length (parts (Path Win32 song_on_z) ! 0) = 3
   \<and> is_letter (parts (Path Win32 song_on_z) ! 0 ! 0)
   \<and> parts (Path Win32 song_on_z) ! 0 ! 1 = CHR '':''
   \<and> windows_to_cygwin_path mapped_drive_env (fs windows_world) song_on_z
       = ''//server/share/Music/song.wav''
   \<and> \<not> starts_with ''/cygdrive/'' (windows_to_cygwin_path mapped_drive_env (fs windows_world) song_on_z)"
  by (simp add: string_defs path_defs io_defs script_defs example_defs)


section \<open>Translating a path twice\<close>

lemma replace_append: "replace a b (x @ y) = replace a b x @ replace a b y"
  by (simp add: replace_def)

lemma replace_Cons: "replace a b (c # s) = (if c = a then b else c) # replace a b s"
  by (simp add: replace_def)

lemma replace_join:
  assumes "\<forall>c \<in> set cs. slash \<notin> set c"
  shows "replace slash backslash (join ''/'' cs) = join [backslash] cs"
  using assms
proof (induction cs rule: induct_list012)
  case 1
  then show ?case by (simp add: replace_def)
next
  case (2 x)
  then show ?case by (simp add: replace_absent)
next
  case (3 x y zs)
  then have "replace slash backslash (join ''/'' (y # zs)) = join [backslash] (y # zs)" by simp
  moreover have "replace slash backslash x = x" using 3 by (simp add: replace_absent)
  moreover have "replace slash backslash ''/'' = [backslash]" by (simp add: replace_def)
  ultimately show ?case by (simp add: replace_append replace_Cons)
qed

lemma split_on_piece_sep:
  "c \<notin> set x \<Longrightarrow> split_on c (x @ c # rest) = x # split_on c rest"
  by (induction x) auto

lemma split_on_join:
  assumes "\<forall>x \<in> set cs. c \<notin> set x" and "cs \<noteq> []"
  shows "split_on c (join [c] cs) = cs"
  using assms
proof (induction cs rule: induct_list012)
  case 1
  then show ?case by simp
next
  case (2 x)
  then show ?case by (simp add: split_on_no_sep)
next
  case (3 x y zs)
  then have "split_on c (join [c] (y # zs)) = y # zs" by simp
  moreover have "c \<notin> set x" using 3 by simp
  ultimately show ?case by (simp add: split_on_piece_sep)
qed

lemma components_of_join:
  assumes "\<forall>c \<in> set cs. valid_name Win32 c"
  shows "filter (\<lambda>x. x \<noteq> [] \<and> x \<noteq> ''.'') (split_on backslash (join [backslash] cs)) = cs"
proof (cases "cs = []")
  case True
  then show ?thesis by simp
next
  case False
  from assms have "\<forall>x \<in> set cs. backslash \<notin> set x" by (simp add: valid_name_def)
  from split_on_join [OF this False] have "split_on backslash (join [backslash] cs) = cs" .
  moreover from assms have "\<forall>x \<in> set cs. x \<noteq> [] \<and> x \<noteq> ''.''" by (simp add: valid_name_def)
  ultimately show ?thesis by (simp add: filter_id_conv)
qed

lemma join_first:
  assumes "\<forall>c \<in> set cs. c \<noteq> [] \<and> a \<notin> set c"
  shows "take 1 (join s cs) \<noteq> [a]"
  using assms
proof (induction cs rule: induct_list012)
  case 1
  then show ?case by simp
next
  case (2 x)
  then show ?case by (cases x) auto
next
  case (3 x y zs)
  then show ?case by (cases x) auto
qed


lemma Path_rooted:
  assumes comps: "\<forall>c \<in> set cs. valid_name Win32 c"
  shows "Path Win32 (slash # join ''/'' cs) = \<lparr>drv = [], root = [backslash], tail = cs\<rparr>"
proof -
  from comps have ns: "\<forall>c \<in> set cs. slash \<notin> set c"
    and nb: "\<forall>c \<in> set cs. c \<noteq> [] \<and> backslash \<notin> set c"
    by (simp_all add: valid_name_def)
  have rp: "replace slash backslash (slash # join ''/'' cs) = backslash # join [backslash] cs"
    using replace_join [OF ns] by (simp add: replace_Cons)
  have "take 1 (join [backslash] cs) \<noteq> [backslash]"
    by (rule join_first [OF nb])
  then have sr: "nt_splitroot (backslash # join [backslash] cs) = ([], [backslash], join [backslash] cs)"
    by (simp add: nt_splitroot_def)
  show ?thesis
    by (simp add: Path_def rp sr sep_def components_of_join [OF comps])
qed

lemma Path_drive:
  assumes comps: "\<forall>c \<in> set cs. valid_name Win32 c" and X: "is_letter X"
  shows "Path Win32 (X # CHR '':'' # backslash # join [backslash] cs)
       = \<lparr>drv = [X, CHR '':''], root = [backslash], tail = cs\<rparr>"
proof -
  from comps have ns: "\<forall>c \<in> set cs. slash \<notin> set c" by (simp add: valid_name_def)
  from X have x: "X \<noteq> slash" "X \<noteq> backslash" by (auto simp: is_letter_def)
  have "slash \<notin> set (join [backslash] cs)" by (rule join_no_char [OF ns]) simp
  then have "slash \<notin> set (X # CHR '':'' # backslash # join [backslash] cs)" using x by simp
  then have rp: "replace slash backslash (X # CHR '':'' # backslash # join [backslash] cs)
      = X # CHR '':'' # backslash # join [backslash] cs"
    by (simp add: replace_absent)
  have sr: "nt_splitroot (X # CHR '':'' # backslash # join [backslash] cs)
      = ([X, CHR '':''], [backslash], join [backslash] cs)"
    using x by (simp add: nt_splitroot_def)
  show ?thesis
    using x by (simp add: Path_def rp sr sep_def components_of_join [OF comps])
qed


text \<open>
  C3, as amended. The translation is deterministic: two calls on the same path for which
  \<^verbatim>\<open>os.path.realpath\<close> answers alike return the same string. It is not idempotent on a
  path that is already in \<^verbatim>\<open>/cygdrive\<close> form. Such a path, a slash followed by
  well-formed components joined by slashes, is rooted but names no drive; when
  \<^verbatim>\<open>resolve\<close> places it on the current drive \<open>X\<close>, the translation is the path itself
  with \<^verbatim>\<open>/cygdrive/\<close> and the lower-cased \<open>X\<close> in front, which differs from the path.
\<close>

theorem translation_adds_mount_prefix:
  assumes comps: "\<forall>c \<in> set cs. valid_name Win32 c"
    and X: "is_letter X"
    and real: "realpath env f ([backslash] @ join [backslash] cs)
                 = [X] @ '':'' @ [backslash] @ join [backslash] cs"
  shows "windows_to_cygwin_path env f (''/'' @ join ''/'' cs)
           = ''/cygdrive/'' @ lower [X] @ ''/'' @ join ''/'' cs
       \<and> windows_to_cygwin_path env f (''/'' @ join ''/'' cs) \<noteq> ''/'' @ join ''/'' cs
       \<and> (\<forall>env' f' p.
             realpath env' f' (str Win32 (Path Win32 p)) = realpath env f (str Win32 (Path Win32 p))
             \<longrightarrow> windows_to_cygwin_path env' f' p = windows_to_cygwin_path env f p)"
proof -
  have s: "str Win32 (Path Win32 (slash # join ''/'' cs)) = backslash # join [backslash] cs"
    by (simp add: Path_rooted [OF comps] str_def sep_def)
  have real': "realpath env f (backslash # join [backslash] cs)
      = X # CHR '':'' # backslash # join [backslash] cs"
    using real by simp
  have r: "resolve env f (Path Win32 (slash # join ''/'' cs))
      = \<lparr>drv = [X, CHR '':''], root = [backslash], tail = cs\<rparr>"
    by (simp add: resolve_def s real' Path_drive [OF comps X])
  have eq: "windows_to_cygwin_path env f (''/'' @ join ''/'' cs)
           = ''/cygdrive/'' @ lower [X] @ ''/'' @ join ''/'' cs"
    by (simp add: windows_to_cygwin_path_def r parts_def Let_def)
  have "length (windows_to_cygwin_path env f (''/'' @ join ''/'' cs)) \<noteq> length (''/'' @ join ''/'' cs)"
    unfolding eq by (simp add: lower_def)
  then have ne: "windows_to_cygwin_path env f (''/'' @ join ''/'' cs) \<noteq> ''/'' @ join ''/'' cs"
    by auto
  have det: "\<forall>env' f' p.
             realpath env' f' (str Win32 (Path Win32 p)) = realpath env f (str Win32 (Path Win32 p))
             \<longrightarrow> windows_to_cygwin_path env' f' p = windows_to_cygwin_path env f p"
    by (simp add: windows_to_cygwin_path_def resolve_def)
  from eq ne det show ?thesis by blast
qed

theorem translation_adds_mount_prefix_witness:
  "windows_to_cygwin_path drive_c_env (fs windows_world) ''/cygdrive/d/Music/song.wav''
     = ''/cygdrive/c/cygdrive/d/Music/song.wav''"
proof -
  note ev = string_defs path_defs io_defs script_defs example_defs
  let ?cs = "[''cygdrive'', ''d'', ''Music'', ''song.wav'']"
  have comps: "\<forall>c \<in> set ?cs. valid_name Win32 c" by (simp add: valid_name_def)
  have X: "is_letter CHR ''C''" by (simp add: is_letter_def)
  have real: "realpath drive_c_env (fs windows_world) ([backslash] @ join [backslash] ?cs)
                 = [CHR ''C''] @ '':'' @ [backslash] @ join [backslash] ?cs"
    by (simp add: example_defs)
  note t = translation_adds_mount_prefix [OF comps X real, THEN conjunct1]
  have l: "lower ''C'' = ''c''" by (simp add: string_defs)
  from t l show ?thesis by simp
qed


text \<open>
  C3, as stated, fails: with the current directory on drive \<^verbatim>\<open>C:\<close>, the translated path
  \<^verbatim>\<open>/cygdrive/c/Users/file.wav\<close> is translated to
  \<^verbatim>\<open>/cygdrive/c/cygdrive/c/Users/file.wav\<close>, and translating that once more gives a third
  string.
\<close>

theorem translation_not_idempotent:
  "windows_to_cygwin_path drive_c_env (fs windows_world) ''/cygdrive/c/Users/file.wav''
     = ''/cygdrive/c/cygdrive/c/Users/file.wav''
   \<and> windows_to_cygwin_path drive_c_env (fs windows_world)
       (windows_to_cygwin_path drive_c_env (fs windows_world) ''/cygdrive/c/Users/file.wav'')
     \<noteq> windows_to_cygwin_path drive_c_env (fs windows_world) ''/cygdrive/c/Users/file.wav''"
  by (simp add: string_defs path_defs io_defs script_defs example_defs)


end
